theory Spec2Isabelle
  imports Main
begin

section \<open>Types and values as package reflect presents them\<close>

text \<open>
  The mapper works on \<^verbatim>\<open>reflect.Type\<close> and \<^verbatim>\<open>reflect.Value\<close>. The embedding keeps the
  fragment the engine dispatches on: the basic kinds, named structs, pointers, slices,
  maps and the empty interface. A basic type carries its kind and its name
  (\<open>TBasic KInt ''int''\<close>, or \<open>TBasic KInt ''MyInt''\<close> for \<^verbatim>\<open>type MyInt int\<close>); a struct
  type carries its name and its declared fields in order. Types are finite trees, so a
  struct that embeds a pointer to itself is outside the fragment, and so are arrays,
  channels, functions, complex numbers and named slice, map and pointer types.
\<close>

datatype kind = KInvalid | KBool | KInt | KInt8 | KInt16 | KInt32 | KInt64
  | KUint | KUint8 | KUint16 | KUint32 | KUint64
  | KFloat32 | KFloat64 | KString | KStruct | KPtr | KSlice | KMap | KInterface

datatype gtype =
    TBasic kind string
  | TStruct string "sfield list"
  | TPtr gtype
  | TSlice gtype
  | TMap gtype gtype
  | TIface
and sfield = SField (fname: string) (ftype: gtype) (anonymous: bool)

fun Kind :: "gtype \<Rightarrow> kind" where
  "Kind (TBasic k _) = k"
| "Kind (TStruct _ _) = KStruct"
| "Kind (TPtr _) = KPtr"
| "Kind (TSlice _) = KSlice"
| "Kind (TMap _ _) = KMap"
| "Kind TIface = KInterface"

text \<open>\<^verbatim>\<open>t.Elem()\<close> of a pointer type, used after a test \<^verbatim>\<open>t.Kind() == reflect.Ptr\<close>.\<close>

fun stripPtr :: "gtype \<Rightarrow> gtype" where
  "stripPtr (TPtr t) = t"
| "stripPtr t = t"

fun structFields :: "gtype \<Rightarrow> sfield list" where
  "structFields (TStruct _ fs) = fs"
| "structFields _ = []"

text \<open>
  \<^verbatim>\<open>unicode.IsUpper\<close> on the ASCII range; field names are lists of characters, one
  character per rune.
\<close>

definition isUpper :: "char \<Rightarrow> bool" where
  "isUpper c = (65 \<le> (of_char c :: nat) \<and> (of_char c :: nat) \<le> 90)"

text \<open>\<^verbatim>\<open>field.IsExported()\<close>: the name starts with an upper-case letter.\<close>

definition IsExported :: "sfield \<Rightarrow> bool" where
  "IsExported f = (case fname f of [] \<Rightarrow> False | c # _ \<Rightarrow> isUpper c)"

text \<open>
  Values carry their type. \<open>VInvalid\<close> is the zero \<^verbatim>\<open>reflect.Value\<close> (what
  \<^verbatim>\<open>reflect.ValueOf(nil)\<close> returns). A pointer owns its pointee, so sharing between two
  pointers is not represented. The payload of a floating-point value is opaque.
\<close>

datatype lit = LBool bool | LInt int | LFloat int | LStr string

datatype gval =
    VInvalid
  | VBasic kind string lit
  | VStruct gtype "gval list"
  | VPtr gtype "gval option"
  | VSlice gtype "gval list option"
  | VMap gtype gtype "(gval \<times> gval) list option"
  | VIface gval

section \<open>Errors (engine.go)\<close>

text \<open>
  \<^verbatim>\<open>MappingError\<close> with its five fields; an absent type or inner error is \<open>None\<close>, an
  absent field name is the empty string. \<open>UserError\<close> is an error value made by a user
  callback.
\<close>

datatype error =
    UserError string
  | MappingError (Message: string) (SrcType: "gtype option") (DestType: "gtype option")
      (FieldName: string) (InnerError: "error option")


section \<open>Type metadata cache (typeCache)\<close>

record fieldInfo =
  name :: string
  index :: "nat list"
  fieldType :: gtype
  canSet :: bool

record typeInfo =
  tiType :: gtype
  tiFields :: "fieldInfo list"
  fieldsByName :: "string \<rightharpoonup> fieldInfo"

lemma size_structFields: "size_list size (structFields t) \<le> size t"
  by (cases t) auto

lemma size_structFields_stripPtr: "size_list size (structFields (stripPtr t)) \<le> size t"
proof (cases t)
  case (TPtr u)
  have "size_list size (structFields u) \<le> size u" by (rule size_structFields)
  with TPtr show ?thesis by simp
qed auto

text \<open>
  \<open>collectFields\<close>: the loop over \<^verbatim>\<open>t.Field(i)\<close>, here over the remaining declared fields
  with the running position \<open>i\<close>. An embedded struct (or pointer to struct) is descended
  into with the extended index; any other unexported field is skipped; an exported field
  is appended to the list and stored in the name table, overwriting an earlier entry
  of the same name.
\<close>

function collectFields :: "sfield list \<Rightarrow> nat list \<Rightarrow> nat \<Rightarrow> typeInfo \<Rightarrow> typeInfo" where
  "collectFields [] idx i info = info"
| "collectFields (f # fs) idx i info =
     (let fieldIdx = idx @ [i] in
      if anonymous f \<and> Kind (stripPtr (ftype f)) = KStruct
      then collectFields fs idx (Suc i)
             (collectFields (structFields (stripPtr (ftype f))) fieldIdx 0 info)
      else if \<not> IsExported f then collectFields fs idx (Suc i) info
      else let fi = \<lparr>name = fname f, index = fieldIdx, fieldType = ftype f, canSet = True\<rparr>
           in collectFields fs idx (Suc i)
                (info\<lparr>tiFields := tiFields info @ [fi],
                      fieldsByName := (fieldsByName info)(fname f \<mapsto> fi)\<rparr>))"
  by pat_completeness auto
termination
proof (relation "measure (\<lambda>(fs, idx, i, info). size_list size fs)")
  show "wf (measure (\<lambda>(fs, idx, i, info). size_list size fs))" by simp
next
  fix f :: sfield and fs :: "sfield list" and idx :: "nat list" and i :: nat
    and info :: typeInfo and x :: "nat list"
  have "size_list size (structFields (stripPtr (ftype f))) \<le> size (ftype f)"
    by (rule size_structFields_stripPtr)
  moreover have "size (ftype f) < size f" by (cases f) simp
  ultimately show "((structFields (stripPtr (ftype f)), x, 0, info), f # fs, idx, i, info)
       \<in> measure (\<lambda>(fs, idx, i, info). size_list size fs)"
    by simp
qed auto

definition buildTypeInfo :: "gtype \<Rightarrow> typeInfo" where
  "buildTypeInfo t =
     (let info = \<lparr>tiType = t, tiFields = [], fieldsByName = Map.empty\<rparr> in
      if Kind t \<noteq> KStruct then info
      else collectFields (structFields t) [] 0 info)"

text \<open>
  \<open>getTypeInfo\<close> strips one pointer and returns the cached entry, building it on the first
  request. \<open>buildTypeInfo\<close> depends on the type alone, so a cached entry equals a rebuilt
  one and the memo table (with its lock) is left out.
\<close>

definition getTypeInfo :: "gtype \<Rightarrow> typeInfo" where
  "getTypeInfo t = buildTypeInfo (if Kind t = KPtr then stripPtr t else t)"

text \<open>\<open>splitPascalCase\<close>: the loop over the runes with the word list and the current word.\<close>

fun splitLoop :: "string \<Rightarrow> nat \<Rightarrow> string list \<Rightarrow> string \<Rightarrow> string list" where
  "splitLoop [] i words current = (if length current > 0 then words @ [current] else words)"
| "splitLoop (r # rs) i words current =
     (if isUpper r \<and> i > 0
      then (if length current > 0 then splitLoop rs (Suc i) (words @ [current]) [r]
            else splitLoop rs (Suc i) words (current @ [r]))
      else splitLoop rs (Suc i) words (current @ [r]))"

definition splitPascalCase :: "string \<Rightarrow> string list" where
  "splitPascalCase s = (if length s = 0 then [] else splitLoop s 0 [] [])"

section \<open>Mapping configuration (mapper.go)\<close>

text \<open>
  The callbacks a user registers. A converter or resolver returns a value or an error
  (\<open>Inl\<close>); a nil result is \<open>VInvalid\<close>. A hook or custom mapper receives the source and
  a pointer to the destination: it returns the destination as it left it, and its error.
\<close>

type_synonym TypeConverter = "gval \<Rightarrow> gtype \<Rightarrow> error + gval"
type_synonym ValueResolver = "gval \<Rightarrow> gval \<Rightarrow> error + gval"
type_synonym CustomMapperFunc = "gval \<Rightarrow> gval \<Rightarrow> gval \<times> error option"
type_synonym BeforeAfterMapFunc = "gval \<Rightarrow> gval \<Rightarrow> gval \<times> error option"
type_synonym ConditionFunc = "gval \<Rightarrow> bool"

record MemberMap =
  destField :: string
  destFieldIdx :: "nat list"
  srcField :: string
  srcFieldIdx :: "nat list"
  resolver :: "ValueResolver option"
  converter :: "TypeConverter option"
  condition :: "ConditionFunc option"
  ignore :: bool
  useFlattening :: bool
  flattenPath :: "string list"

record TypeMap =
  srcType :: gtype
  destType :: gtype
  memberMaps :: "MemberMap list"
  customMapper :: "CustomMapperFunc option"
  beforeMap :: "BeforeAfterMapFunc list"
  afterMap :: "BeforeAfterMapFunc list"
  ignoreFields :: "string \<rightharpoonup> bool"

text \<open>The zero \<^verbatim>\<open>MemberMap\<close>, as a Go composite literal leaves the fields it does not name.\<close>

definition emptyMemberMap :: MemberMap where
  "emptyMemberMap = \<lparr>destField = [], destFieldIdx = [], srcField = [], srcFieldIdx = [],
     resolver = None, converter = None, condition = None, ignore = False,
     useFlattening = False, flattenPath = []\<rparr>"

text \<open>
  The loop of \<open>tryFlattenMatch\<close> over the remaining parts, with the current type and the
  indices collected so far; \<open>None\<close> is the \<^verbatim>\<open>return nil\<close> of the loop.
\<close>

fun tryFlattenLoop :: "string list \<Rightarrow> gtype \<Rightarrow> nat list \<Rightarrow> nat list option" where
  "tryFlattenLoop [] currentType indices = Some indices"
| "tryFlattenLoop (part # rest) currentType indices =
     (case fieldsByName (getTypeInfo currentType) part of
        None \<Rightarrow> None
      | Some field \<Rightarrow>
          (let indices' = indices @ index field in
           if rest \<noteq> [] then
             (let fieldType = (if Kind (fieldType field) = KPtr
                               then stripPtr (fieldType field) else fieldType field) in
              if Kind fieldType \<noteq> KStruct then None
              else tryFlattenLoop rest fieldType indices')
           else tryFlattenLoop rest currentType indices'))"

definition tryFlattenMatch :: "TypeMap \<Rightarrow> string list \<Rightarrow> fieldInfo \<Rightarrow> MemberMap option" where
  "tryFlattenMatch tm path destFld =
     (case tryFlattenLoop path (srcType tm) [] of
        None \<Rightarrow> None
      | Some indices \<Rightarrow>
          Some (emptyMemberMap\<lparr>destField := name destFld, destFieldIdx := index destFld,
                  srcField := (case path of [] \<Rightarrow> [] | p # _ \<Rightarrow> p), srcFieldIdx := indices,
                  useFlattening := True, flattenPath := path\<rparr>))"

definition findSourceMember :: "TypeMap \<Rightarrow> fieldInfo \<Rightarrow> MemberMap option" where
  "findSourceMember tm destFld =
     (let srcInfo = getTypeInfo (srcType tm) in
      case fieldsByName srcInfo (name destFld) of
        Some srcFld \<Rightarrow>
          Some (emptyMemberMap\<lparr>destField := name destFld, destFieldIdx := index destFld,
                  srcField := name srcFld, srcFieldIdx := index srcFld\<rparr>)
      | None \<Rightarrow>
          (let flattenPath = splitPascalCase (name destFld) in
           if length flattenPath > 1 then tryFlattenMatch tm flattenPath destFld
           else None))"

fun autoConfigureLoop :: "fieldInfo list \<Rightarrow> TypeMap \<Rightarrow> TypeMap" where
  "autoConfigureLoop [] tm = tm"
| "autoConfigureLoop (destFld # rest) tm =
     (case findSourceMember tm destFld of
        Some mm \<Rightarrow> autoConfigureLoop rest (tm\<lparr>memberMaps := memberMaps tm @ [mm]\<rparr>)
      | None \<Rightarrow> autoConfigureLoop rest tm)"

definition autoConfigureMembers :: "TypeMap \<Rightarrow> TypeMap" where
  "autoConfigureMembers tm = autoConfigureLoop (tiFields (getTypeInfo (destType tm))) tm"

text \<open>The \<^verbatim>\<open>&TypeMap{...}\<close> literal of \<open>CreateMap\<close> and \<open>autoCreateTypeMap\<close>.\<close>

definition newTypeMap :: "gtype \<Rightarrow> gtype \<Rightarrow> TypeMap" where
  "newTypeMap st dt = \<lparr>srcType = st, destType = dt, memberMaps = [], customMapper = None,
     beforeMap = [], afterMap = [], ignoreFields = Map.empty\<rparr>"

section \<open>Operations of package reflect used by the engine\<close>

fun typeOf :: "gval \<Rightarrow> gtype" where
  "typeOf (VBasic k n _) = TBasic k n"
| "typeOf (VStruct t _) = t"
| "typeOf (VPtr t _) = TPtr t"
| "typeOf (VSlice t _) = TSlice t"
| "typeOf (VMap kt vt _) = TMap kt vt"
| "typeOf (VIface _) = TIface"
| "typeOf VInvalid = TIface"

definition IsValid :: "gval \<Rightarrow> bool" where
  "IsValid v = (v \<noteq> VInvalid)"

fun zeroLit :: "kind \<Rightarrow> lit" where
  "zeroLit KBool = LBool False"
| "zeroLit KString = LStr []"
| "zeroLit KFloat32 = LFloat 0"
| "zeroLit KFloat64 = LFloat 0"
| "zeroLit _ = LInt 0"

text \<open>\<^verbatim>\<open>reflect.Zero(t)\<close>, also the content of \<^verbatim>\<open>reflect.New(t).Elem()\<close>.\<close>

fun zeroValue :: "gtype \<Rightarrow> gval"
  and zeroFields :: "sfield list \<Rightarrow> gval list"
  and zeroField :: "sfield \<Rightarrow> gval" where
  "zeroValue (TBasic k n) = VBasic k n (zeroLit k)"
| "zeroValue (TStruct n fs) = VStruct (TStruct n fs) (zeroFields fs)"
| "zeroValue (TPtr t) = VPtr t None"
| "zeroValue (TSlice t) = VSlice t None"
| "zeroValue (TMap kt vt) = VMap kt vt None"
| "zeroValue TIface = VIface VInvalid"
| "zeroFields [] = []"
| "zeroFields (f # fs) = zeroField f # zeroFields fs"
| "zeroField (SField n t a) = zeroValue t"

text \<open>
  The permission bits of a \<^verbatim>\<open>reflect.Value\<close>: \<^verbatim>\<open>flagAddr\<close> (the value is addressable,
  \<^verbatim>\<open>CanAddr()\<close>), \<^verbatim>\<open>flagStickyRO\<close> (the value was read through an unexported field that is
  not embedded) and \<^verbatim>\<open>flagEmbedRO\<close> (it was read through an unexported embedded field). A
  value with one of the two read-only bits is not handed out: \<^verbatim>\<open>Interface()\<close> panics on
  it, and \<^verbatim>\<open>Set\<close> panics when it is the source.
\<close>

record vflags =
  canAddr :: bool
  stickyRO :: bool
  embedRO :: bool

definition readOnly :: "vflags \<Rightarrow> bool" where
  "readOnly f = (stickyRO f \<or> embedRO f)"

text \<open>The bits of \<^verbatim>\<open>reflect.ValueOf(x)\<close>: not addressable, not read-only.\<close>

definition plainValue :: vflags where
  "plainValue = \<lparr>canAddr = False, stickyRO = False, embedRO = False\<rparr>"

text \<open>\<^verbatim>\<open>Elem()\<close> of a pointer: addressable, with the read-only bits of the pointer.\<close>

definition ptrElem :: "vflags \<Rightarrow> vflags" where
  "ptrElem f = \<lparr>canAddr = True, stickyRO = stickyRO f, embedRO = embedRO f\<rparr>"

text \<open>
  \<^verbatim>\<open>Elem()\<close> of an interface, and the key and the value of a map iterator: not
  addressable, and read-only (\<^verbatim>\<open>flag.ro()\<close>, the sticky bit) when the container is.
\<close>

definition ifaceElem :: "vflags \<Rightarrow> vflags" where
  "ifaceElem f = \<lparr>canAddr = False, stickyRO = readOnly f, embedRO = False\<rparr>"

definition mapIterElem :: "vflags \<Rightarrow> vflags" where
  "mapIterElem f = \<lparr>canAddr = False, stickyRO = readOnly f, embedRO = False\<rparr>"

text \<open>\<^verbatim>\<open>Index(i)\<close> of a slice: addressable, and read-only when the slice is.\<close>

definition sliceIndex :: "vflags \<Rightarrow> vflags" where
  "sliceIndex f = \<lparr>canAddr = True, stickyRO = readOnly f, embedRO = False\<rparr>"

text \<open>
  \<^verbatim>\<open>Field(i)\<close> of a struct of type \<open>t\<close>: the field inherits the address bit and the sticky
  bit and drops the embedded one; an unexported field adds the embedded bit when it is
  embedded and the sticky bit when it is not. (An index beyond the declared fields, which
  no struct value of Go has, inherits only.)
\<close>

definition fieldFlags :: "vflags \<Rightarrow> gtype \<Rightarrow> nat \<Rightarrow> vflags" where
  "fieldFlags f t i =
     (if i < length (structFields t)
      then (let fd = structFields t ! i in
            \<lparr>canAddr = canAddr f,
             stickyRO = (stickyRO f \<or> (\<not> IsExported fd \<and> \<not> anonymous fd)),
             embedRO = (\<not> IsExported fd \<and> anonymous fd)\<rparr>)
      else \<lparr>canAddr = canAddr f, stickyRO = stickyRO f, embedRO = False\<rparr>)"

text \<open>
  \<open>derefValue\<close> (engine.go): follow pointers and interfaces; a nil one gives the invalid
  value. The second component is the permission bits of the result.
\<close>

fun derefValue :: "gval \<Rightarrow> vflags \<Rightarrow> gval \<times> vflags" where
  "derefValue (VPtr t None) a = (VInvalid, plainValue)"
| "derefValue (VPtr t (Some v)) a = derefValue v (ptrElem a)"
| "derefValue (VIface v) a = (if v = VInvalid then (VInvalid, plainValue) else derefValue v (ifaceElem a))"
| "derefValue v a = (v, a)"

definition isIntKind :: "kind \<Rightarrow> bool" where
  "isIntKind k = (k \<in> {KInt, KInt8, KInt16, KInt32, KInt64})"

definition isUintKind :: "kind \<Rightarrow> bool" where
  "isUintKind k = (k \<in> {KUint, KUint8, KUint16, KUint32, KUint64})"

definition isFloatKind :: "kind \<Rightarrow> bool" where
  "isFloatKind k = (k \<in> {KFloat32, KFloat64})"

text \<open>Width in bits of an integer kind; \<^verbatim>\<open>int\<close> and \<^verbatim>\<open>uint\<close> are 64 bits wide.\<close>

fun bitWidth :: "kind \<Rightarrow> nat" where
  "bitWidth KInt8 = 8" | "bitWidth KUint8 = 8"
| "bitWidth KInt16 = 16" | "bitWidth KUint16 = 16"
| "bitWidth KInt32 = 32" | "bitWidth KUint32 = 32"
| "bitWidth _ = 64"

definition wrapInt :: "kind \<Rightarrow> int \<Rightarrow> int" where
  "wrapInt k v =
     (if isUintKind k then v mod 2 ^ bitWidth k
      else (v + 2 ^ (bitWidth k - 1)) mod 2 ^ bitWidth k - 2 ^ (bitWidth k - 1))"

text \<open>
  \<^verbatim>\<open>AssignableTo\<close>: in this fragment every type but a pointer, slice or map is named, so
  a value is assignable to a slot of its own type and to the empty interface.
\<close>

definition AssignableTo :: "gtype \<Rightarrow> gtype \<Rightarrow> bool" where
  "AssignableTo v t = (v = t \<or> t = TIface)"

text \<open>Identical underlying types: the basic kind, or the field list of a struct.\<close>

fun identicalUnderlying :: "gtype \<Rightarrow> gtype \<Rightarrow> bool" where
  "identicalUnderlying (TBasic k1 _) (TBasic k2 _) = (k1 = k2)"
| "identicalUnderlying (TStruct _ fs1) (TStruct _ fs2) = (fs1 = fs2)"
| "identicalUnderlying t u = (t = u)"

definition isByteOrRuneSlice :: "gtype \<Rightarrow> bool" where
  "isByteOrRuneSlice t = (t = TSlice (TBasic KUint8 ''uint8'') \<or> t = TSlice (TBasic KInt32 ''int32''))"

text \<open>\<^verbatim>\<open>ConvertibleTo\<close>, after the case distinction of \<^verbatim>\<open>reflect.convertOp\<close>.\<close>

definition ConvertibleTo :: "gtype \<Rightarrow> gtype \<Rightarrow> bool" where
  "ConvertibleTo v t =
     (((isIntKind (Kind v) \<or> isUintKind (Kind v)) \<and>
         (isIntKind (Kind t) \<or> isUintKind (Kind t) \<or> isFloatKind (Kind t) \<or> Kind t = KString))
      \<or> (isFloatKind (Kind v) \<and>
         (isIntKind (Kind t) \<or> isUintKind (Kind t) \<or> isFloatKind (Kind t)))
      \<or> (Kind v = KString \<and> isByteOrRuneSlice t)
      \<or> (isByteOrRuneSlice v \<and> Kind t = KString)
      \<or> identicalUnderlying v t
      \<or> (Kind v = KPtr \<and> Kind t = KPtr \<and> identicalUnderlying (stripPtr v) (stripPtr t))
      \<or> t = TIface)"

text \<open>
  \<^verbatim>\<open>v.Convert(t)\<close> for a convertible pair. Integer conversions wrap to the width of the
  target; a conversion between identical underlying types keeps the content under the new
  type. The conversions that involve a floating-point number or build a string from a
  number or a slice are not given a value (\<open>None\<close>).
\<close>

fun convertValue :: "gval \<Rightarrow> gtype \<Rightarrow> gval option" where
  "convertValue (VBasic k n (LInt i)) (TBasic k' n') =
     (if isIntKind k' \<or> isUintKind k' then Some (VBasic k' n' (LInt (wrapInt k' i))) else None)"
| "convertValue (VBasic k n l) (TBasic k' n') = (if k = k' then Some (VBasic k' n' l) else None)"
| "convertValue (VStruct t vs) (TStruct n fs) = Some (VStruct (TStruct n fs) vs)"
| "convertValue (VPtr t p) (TPtr t') = Some (VPtr t' p)"
| "convertValue (VIface v) TIface = Some (VIface v)"
| "convertValue v TIface = Some (VIface v)"
| "convertValue v t = (if typeOf v = t then Some v else None)"

text \<open>
  \<^verbatim>\<open>dest.Set(src)\<close> on an addressable destination: panics (\<open>None\<close>) when the source is the
  invalid value or its type is not assignable to the destination's; a value stored in an
  interface slot is boxed.
\<close>

definition setValue :: "gval \<Rightarrow> gval \<Rightarrow> gval option" where
  "setValue dest src =
     (if \<not> IsValid src then None
      else if \<not> AssignableTo (typeOf src) (typeOf dest) then None
      else if typeOf dest = TIface \<and> typeOf src \<noteq> TIface then Some (VIface src)
      else Some src)"

text \<open>\<^verbatim>\<open>v.Field(i)\<close>: panics unless \<open>v\<close> is a struct with more than \<open>i\<close> fields.\<close>

fun fieldOf :: "gval \<Rightarrow> nat \<Rightarrow> gval option" where
  "fieldOf (VStruct t vs) i = (if i < length vs then Some (vs ! i) else None)"
| "fieldOf _ i = None"

fun setFieldOf :: "gval \<Rightarrow> nat \<Rightarrow> gval \<Rightarrow> gval option" where
  "setFieldOf (VStruct t vs) i x = (if i < length vs then Some (VStruct t (vs[i := x])) else None)"
| "setFieldOf _ i x = None"

text \<open>
  \<^verbatim>\<open>v.FieldByIndex(index)\<close>: after the first step a pointer to a struct is followed, and
  a nil one panics. \<open>updateByIndex\<close> stores a new content in the slot that
  \<open>fieldByIndex\<close> reads, which is how a write through the field's \<^verbatim>\<open>reflect.Value\<close>
  reaches the enclosing struct.
\<close>

fun fieldByIndexFrom :: "gval \<Rightarrow> nat list \<Rightarrow> gval option" where
  "fieldByIndexFrom v [] = Some v"
| "fieldByIndexFrom (VPtr t None) (x # xs) = None"
| "fieldByIndexFrom (VPtr t (Some v)) (x # xs) =
     (case fieldOf v x of None \<Rightarrow> None | Some w \<Rightarrow> fieldByIndexFrom w xs)"
| "fieldByIndexFrom v (x # xs) =
     (case fieldOf v x of None \<Rightarrow> None | Some w \<Rightarrow> fieldByIndexFrom w xs)"

fun fieldByIndex :: "gval \<Rightarrow> nat list \<Rightarrow> gval option" where
  "fieldByIndex (VStruct t vs) [] = Some (VStruct t vs)"
| "fieldByIndex v [] = None"
| "fieldByIndex v (x # xs) =
     (case fieldOf v x of None \<Rightarrow> None | Some w \<Rightarrow> fieldByIndexFrom w xs)"

fun updateByIndexFrom :: "gval \<Rightarrow> nat list \<Rightarrow> gval \<Rightarrow> gval option" where
  "updateByIndexFrom v [] new = Some new"
| "updateByIndexFrom (VPtr t None) (x # xs) new = None"
| "updateByIndexFrom (VPtr t (Some v)) (x # xs) new =
     (case fieldOf v x of None \<Rightarrow> None
      | Some w \<Rightarrow> (case updateByIndexFrom w xs new of None \<Rightarrow> None
          | Some w' \<Rightarrow> map_option (\<lambda>v'. VPtr t (Some v')) (setFieldOf v x w')))"
| "updateByIndexFrom v (x # xs) new =
     (case fieldOf v x of None \<Rightarrow> None
      | Some w \<Rightarrow> (case updateByIndexFrom w xs new of None \<Rightarrow> None
          | Some w' \<Rightarrow> setFieldOf v x w'))"

fun updateByIndex :: "gval \<Rightarrow> nat list \<Rightarrow> gval \<Rightarrow> gval option" where
  "updateByIndex v [] new = Some new"
| "updateByIndex v (x # xs) new =
     (case fieldOf v x of None \<Rightarrow> None
      | Some w \<Rightarrow> (case updateByIndexFrom w xs new of None \<Rightarrow> None
          | Some w' \<Rightarrow> setFieldOf v x w'))"

text \<open>
  \<^verbatim>\<open>CanSet()\<close> of a field reached by an index path in an addressable struct: the path must
  not pass an unexported field that is not embedded, and the field itself is exported.
\<close>

fun canSetByIndex :: "sfield list \<Rightarrow> nat list \<Rightarrow> bool" where
  "canSetByIndex fs [] = True"
| "canSetByIndex fs (x # xs) =
     (if x < length fs then
        (let f = fs ! x in
         if \<not> IsExported f \<and> \<not> anonymous f then False
         else if xs = [] then IsExported f
         else canSetByIndex (structFields (stripPtr (ftype f))) xs)
      else False)"

text \<open>
  \<open>getNestedField\<close> (engine.go), with the permission bits of the value it returns.
\<close>

fun getNestedLoop :: "gval \<Rightarrow> vflags \<Rightarrow> nat list \<Rightarrow> gval \<times> vflags" where
  "getNestedLoop v a [] = (v, a)"
| "getNestedLoop (VPtr t None) a (idx # rest) = (VInvalid, plainValue)"
| "getNestedLoop (VPtr t (Some (VStruct st vs))) a (idx # rest) =
     (if idx \<ge> length vs then (VInvalid, plainValue)
      else getNestedLoop (vs ! idx) (fieldFlags (ptrElem a) st idx) rest)"
| "getNestedLoop (VStruct st vs) a (idx # rest) =
     (if idx \<ge> length vs then (VInvalid, plainValue)
      else getNestedLoop (vs ! idx) (fieldFlags a st idx) rest)"
| "getNestedLoop v a (idx # rest) = (VInvalid, plainValue)"

definition getNestedField :: "gval \<Rightarrow> vflags \<Rightarrow> nat list \<Rightarrow> gval \<times> vflags" where
  "getNestedField v a indices =
     (case derefValue v a of (v', a') \<Rightarrow>
        if \<not> IsValid v' then (VInvalid, plainValue) else getNestedLoop v' a' indices)"

text \<open>
  \<^verbatim>\<open>v.FieldByName(name)\<close> on a struct value. The type is searched level by level through
  the embedded structs: one match at the shallowest level with a match is the field, two
  matches there are ambiguous and give no field. An embedded struct type that occurs
  twice at one level is searched twice here, where reflect counts it once.
\<close>

definition levelMatches :: "(sfield list \<times> nat list) list \<Rightarrow> string \<Rightarrow> nat list list" where
  "levelMatches lvl n =
     concat (map (\<lambda>(fs, pre). map (\<lambda>(i, f). pre @ [i])
                    (filter (\<lambda>(i, f). fname f = n) (enumerate 0 fs))) lvl)"

definition nextLevel :: "(sfield list \<times> nat list) list \<Rightarrow> (sfield list \<times> nat list) list" where
  "nextLevel lvl =
     concat (map (\<lambda>(fs, pre). map (\<lambda>(i, f). (structFields (stripPtr (ftype f)), pre @ [i]))
                    (filter (\<lambda>(i, f). anonymous f \<and> Kind (stripPtr (ftype f)) = KStruct)
                       (enumerate 0 fs))) lvl)"

fun fieldByNameLevels :: "nat \<Rightarrow> (sfield list \<times> nat list) list \<Rightarrow> string \<Rightarrow> nat list option" where
  "fieldByNameLevels 0 lvl n = None"
| "fieldByNameLevels (Suc d) lvl n =
     (if lvl = [] then None
      else case levelMatches lvl n of
             [] \<Rightarrow> fieldByNameLevels d (nextLevel lvl) n
           | [p] \<Rightarrow> Some p
           | _ \<Rightarrow> None)"

definition typeFieldByName :: "gtype \<Rightarrow> string \<Rightarrow> nat list option" where
  "typeFieldByName t n = fieldByNameLevels (size t) [(structFields t, [])] n"

text \<open>The permission bits of the value that \<open>fieldByIndex\<close> reads, from those of the
  struct: one \<^verbatim>\<open>Field\<close> step for each index, and \<^verbatim>\<open>Elem\<close> where a pointer is followed.\<close>

fun flagsByIndexFrom :: "gval \<Rightarrow> vflags \<Rightarrow> nat list \<Rightarrow> vflags" where
  "flagsByIndexFrom v a [] = a"
| "flagsByIndexFrom (VPtr t None) a (x # xs) = a"
| "flagsByIndexFrom (VPtr t (Some v)) a (x # xs) =
     (case fieldOf v x of None \<Rightarrow> a
      | Some w \<Rightarrow> flagsByIndexFrom w (fieldFlags (ptrElem a) (typeOf v) x) xs)"
| "flagsByIndexFrom v a (x # xs) =
     (case fieldOf v x of None \<Rightarrow> a
      | Some w \<Rightarrow> flagsByIndexFrom w (fieldFlags a (typeOf v) x) xs)"

fun flagsByIndex :: "gval \<Rightarrow> vflags \<Rightarrow> nat list \<Rightarrow> vflags" where
  "flagsByIndex v a [] = a"
| "flagsByIndex v a (x # xs) =
     (case fieldOf v x of None \<Rightarrow> a
      | Some w \<Rightarrow> flagsByIndexFrom w (fieldFlags a (typeOf v) x) xs)"

text \<open>
  \<^verbatim>\<open>v.FieldByName(name)\<close> on a value with the permission bits \<open>a\<close>: the field and its
  bits. The name of an unexported field is found like any other, and the value read is
  then read-only. The outer \<open>None\<close> is a panic: the value is not a struct, or the path
  crosses a nil embedded pointer.
\<close>

definition FieldByName :: "gval \<Rightarrow> vflags \<Rightarrow> string \<Rightarrow> (gval \<times> vflags) option" where
  "FieldByName v a n =
     (if Kind (typeOf v) \<noteq> KStruct \<or> \<not> IsValid v then None
      else case typeFieldByName (typeOf v) n of
             None \<Rightarrow> Some (VInvalid, plainValue)
           | Some idx \<Rightarrow> map_option (\<lambda>w. (w, flagsByIndex v a idx)) (fieldByIndex v idx))"

section \<open>Optimization metadata (optimizations.go)\<close>

text \<open>\<open>OptimizationLevel\<close> is an integer; the constants are numbered by \<^verbatim>\<open>iota\<close>.\<close>

type_synonym OptimizationLevel = nat

definition OptimizationNone :: OptimizationLevel where "OptimizationNone = 0"
definition OptimizationPooled :: OptimizationLevel where "OptimizationPooled = 1"
definition OptimizationUnsafe :: OptimizationLevel where "OptimizationUnsafe = 2"
definition OptimizationSpecialized :: OptimizationLevel where "OptimizationSpecialized = 3"

definition isPrimitiveKind :: "kind \<Rightarrow> bool" where
  "isPrimitiveKind k = (k \<in> {KBool, KInt, KInt8, KInt16, KInt32, KInt64,
      KUint, KUint8, KUint16, KUint32, KUint64, KFloat32, KFloat64, KString})"

text \<open>
  \<open>MemberMapOptimized\<close> embeds a pointer to the \<open>MemberMap\<close> it was compiled from.
  Member maps are only ever appended to a \<open>TypeMap\<close>, so the pointer is the position
  \<open>mmRef\<close> in \<open>memberMaps\<close>, read at the time of use. The byte offsets name the
  top-level field by its position; the field size is left out, since a field is copied
  whole.
\<close>

record MemberMapOptimized =
  mmRef :: nat
  srcKind :: kind
  destKind :: kind
  isPrimitive :: bool
  srcOffset :: nat
  destOffset :: nat
  directAssign :: bool

text \<open>
  \<open>TypeMapOptimized\<close> embeds a pointer to its \<open>TypeMap\<close>: \<open>tmRef\<close> is the address of the
  \<open>TypeMap\<close> in the store of the configuration. \<open>specializedFn\<close> is the closure of
  \<open>compileSpecializedMapper\<close>, represented by the member list it captured.
\<close>

record TypeMapOptimized =
  tmRef :: nat
  optimizedMembers :: "MemberMapOptimized list"
  specializedFn :: "MemberMapOptimized list option"
  allPrimitive :: bool
  hasCustomLogic :: bool
  compiled :: bool

text \<open>
  \<open>MapperConfiguration\<close>. The registry maps a type pair to the address of a \<open>TypeMap\<close> in
  \<open>store\<close> (a builder and an optimized map hold the same address, and see later
  changes). The lock is left out.
\<close>

type_synonym typeMapKey = "gtype \<times> gtype"

record MapperConfiguration =
  typeMaps :: "typeMapKey \<rightharpoonup> nat"
  store :: "TypeMap list"
  converters :: "typeMapKey \<rightharpoonup> TypeConverter"
  allowNilColl :: bool
  optLevel :: OptimizationLevel
  useUnsafe :: bool
  optimizedMaps :: "typeMapKey \<rightharpoonup> TypeMapOptimized"

text \<open>\<^verbatim>\<open>t.Field(i)\<close> on a type: panics unless \<open>t\<close> is a struct with more than \<open>i\<close> fields.\<close>

definition typeField :: "gtype \<Rightarrow> nat \<Rightarrow> sfield option" where
  "typeField t i =
     (if Kind t = KStruct \<and> i < length (structFields t) then Some (structFields t ! i) else None)"

text \<open>
  One round of the loop of \<open>compileOptimizedTypeMap\<close>: the optimized member for the
  member map at position \<open>i\<close>, and whether it keeps \<open>allPrimitive\<close> and raises
  \<open>hasCustomLogic\<close>. \<open>None\<close> is the panic of \<^verbatim>\<open>Field\<close>.
\<close>

definition compileMember :: "TypeMap \<Rightarrow> nat \<Rightarrow> MemberMap \<Rightarrow> (MemberMapOptimized \<times> bool \<times> bool) option" where
  "compileMember tm i mm =
     (let optMm = \<lparr>mmRef = i, srcKind = KInvalid, destKind = KInvalid, isPrimitive = False,
                    srcOffset = 0, destOffset = 0, directAssign = False\<rparr>;
          custom = (resolver mm \<noteq> None \<or> converter mm \<noteq> None \<or> condition mm \<noteq> None)
      in
      if length (srcFieldIdx mm) = 1 \<and> length (destFieldIdx mm) = 1 then
        (case (typeField (srcType tm) (srcFieldIdx mm ! 0), typeField (destType tm) (destFieldIdx mm ! 0)) of
           (Some srcFld, Some destFld) \<Rightarrow>
             (let prim = (isPrimitiveKind (Kind (ftype srcFld)) \<and> isPrimitiveKind (Kind (ftype destFld)));
                  optMm' = optMm\<lparr>srcKind := Kind (ftype srcFld), destKind := Kind (ftype destFld),
                             isPrimitive := prim,
                             srcOffset := srcFieldIdx mm ! 0, destOffset := destFieldIdx mm ! 0,
                             directAssign := (ftype srcFld = ftype destFld \<and> prim)\<rparr>
              in Some (if custom then optMm'\<lparr>isPrimitive := False\<rparr> else optMm', prim, custom))
         | _ \<Rightarrow> None)
      else Some (optMm, False, custom))"

fun compileMembers :: "TypeMap \<Rightarrow> nat \<Rightarrow> MemberMap list \<Rightarrow> TypeMapOptimized \<Rightarrow> TypeMapOptimized option" where
  "compileMembers tm i [] opt = Some opt"
| "compileMembers tm i (mm # rest) opt =
     (case compileMember tm i mm of
        None \<Rightarrow> None
      | Some (optMm, prim, custom) \<Rightarrow>
          compileMembers tm (Suc i) rest
            (opt\<lparr>optimizedMembers := optimizedMembers opt @ [optMm],
                 allPrimitive := (allPrimitive opt \<and> prim),
                 hasCustomLogic := (hasCustomLogic opt \<or> custom)\<rparr>))"

text \<open>\<open>compileOptimizedTypeMap\<close> for the \<open>TypeMap\<close> \<open>tm\<close> stored at address \<open>r\<close>.\<close>

definition compileOptimizedTypeMap :: "nat \<Rightarrow> TypeMap \<Rightarrow> OptimizationLevel \<Rightarrow> TypeMapOptimized option" where
  "compileOptimizedTypeMap r tm level =
     (let opt = \<lparr>tmRef = r, optimizedMembers = [], specializedFn = None, allPrimitive = True,
                  hasCustomLogic = (customMapper tm \<noteq> None \<or> length (beforeMap tm) > 0
                                     \<or> length (afterMap tm) > 0),
                  compiled = False\<rparr>
      in case compileMembers tm 0 (memberMaps tm) opt of
           None \<Rightarrow> None
         | Some opt' \<Rightarrow>
             Some ((if level \<ge> OptimizationSpecialized \<and> allPrimitive opt' \<and> \<not> hasCustomLogic opt'
                    then opt'\<lparr>specializedFn := Some (optimizedMembers opt')\<rparr> else opt')
                   \<lparr>compiled := True\<rparr>))"

text \<open>
  \<open>registerTypeMap\<close> is the tail that \<open>CreateMap\<close> and \<open>autoCreateTypeMap\<close> share: the
  \<open>TypeMap\<close> is allocated, entered in the registry under the key (replacing what was
  there), and compiled when the optimization level is above \<open>OptimizationNone\<close>.
  \<open>autoCreateTypeMap\<close> (engine.go) returns the registered \<open>TypeMap\<close> if there is one, else
  registers a new auto-configured one. The result is the new configuration and the
  address; \<open>None\<close> is a panic of the compilation.
\<close>

definition registerTypeMap :: "MapperConfiguration \<Rightarrow> typeMapKey \<Rightarrow> TypeMap \<Rightarrow> (MapperConfiguration \<times> nat) option" where
  "registerTypeMap cfg key tm =
     (let r = length (store cfg);
          cfg' = cfg\<lparr>store := store cfg @ [tm], typeMaps := (typeMaps cfg)(key \<mapsto> r)\<rparr>
      in if optLevel cfg > OptimizationNone then
           (case compileOptimizedTypeMap r tm (optLevel cfg) of
              None \<Rightarrow> None
            | Some optMap \<Rightarrow> Some (cfg'\<lparr>optimizedMaps := (optimizedMaps cfg')(key \<mapsto> optMap)\<rparr>, r))
         else Some (cfg', r))"

definition autoCreateTypeMap :: "MapperConfiguration \<Rightarrow> gtype \<Rightarrow> gtype \<Rightarrow> (MapperConfiguration \<times> nat) option" where
  "autoCreateTypeMap cfg st dt =
     (case typeMaps cfg (st, dt) of
        Some r \<Rightarrow> Some (cfg, r)
      | None \<Rightarrow> registerTypeMap cfg (st, dt) (autoConfigureMembers (newTypeMap st dt)))"

section \<open>Mapping execution engine (engine.go)\<close>

text \<open>
  A call of the engine mutates the destination and the configuration in place and returns
  an error or nil. \<open>Ok cfg d\<close> is a return of nil and \<open>Fail cfg d e\<close> a return of the
  error \<open>e\<close>, each with the configuration and the destination as the call left them.
  \<open>Panic\<close> is a run-time panic, \<open>OutOfFuel\<close> the end of the recursion budget of the
  model, \<open>NotModelled\<close> a conversion whose value the model does not give.
\<close>

datatype outcome =
    Ok MapperConfiguration gval
  | Fail MapperConfiguration gval error
  | Panic
  | OutOfFuel
  | NotModelled

fun andThen :: "outcome \<Rightarrow> (MapperConfiguration \<Rightarrow> gval \<Rightarrow> outcome) \<Rightarrow> outcome" where
  "andThen (Ok cfg d) k = k cfg d"
| "andThen out k = out"

text \<open>The outcome of a call on a part of the destination, seen from the whole.\<close>

fun inDest :: "(gval \<Rightarrow> gval option) \<Rightarrow> outcome \<Rightarrow> outcome" where
  "inDest put (Ok cfg d) = (case put d of None \<Rightarrow> Panic | Some d' \<Rightarrow> Ok cfg d')"
| "inDest put (Fail cfg d e) = (case put d of None \<Rightarrow> Panic | Some d' \<Rightarrow> Fail cfg d' e)"
| "inDest put out = out"

text \<open>\<^verbatim>\<open>dest.Set(v)\<close> for a value \<open>v\<close> made by the engine or returned by a callback.\<close>

definition setOutcome :: "MapperConfiguration \<Rightarrow> gval \<Rightarrow> gval \<Rightarrow> outcome" where
  "setOutcome cfg dest v = (case setValue dest v of None \<Rightarrow> Panic | Some d \<Rightarrow> Ok cfg d)"

text \<open>\<^verbatim>\<open>dest.Set(v)\<close> for a value \<open>v\<close> read from the source, with the permission bits \<open>a\<close>:
  \<^verbatim>\<open>Set\<close> panics on a read-only argument.\<close>

definition setFrom :: "MapperConfiguration \<Rightarrow> gval \<Rightarrow> gval \<Rightarrow> vflags \<Rightarrow> outcome" where
  "setFrom cfg dest v a = (if readOnly a then Panic else setOutcome cfg dest v)"

type_synonym mapFn = "MapperConfiguration \<Rightarrow> gval \<Rightarrow> vflags \<Rightarrow> gval \<Rightarrow> outcome"

text \<open>
  The loops over \<open>beforeMap\<close> and \<open>afterMap\<close>: the first error ends the mapping. Each
  call passes \<^verbatim>\<open>srcVal.Interface()\<close>, which panics on a read-only source.
\<close>

fun runHooks :: "BeforeAfterMapFunc list \<Rightarrow> gval \<Rightarrow> vflags \<Rightarrow> MapperConfiguration \<Rightarrow> gval \<Rightarrow> outcome" where
  "runHooks [] src sa cfg dest = Ok cfg dest"
| "runHooks (h # hs) src sa cfg dest =
     (if readOnly sa then Panic
      else case h src dest of
             (d, Some err) \<Rightarrow> Fail cfg d err
           | (d, None) \<Rightarrow> runHooks hs src sa cfg d)"

definition runCustomMapper :: "CustomMapperFunc \<Rightarrow> gval \<Rightarrow> vflags \<Rightarrow> MapperConfiguration \<Rightarrow> gval \<Rightarrow> outcome" where
  "runCustomMapper f src sa cfg dest =
     (if readOnly sa then Panic
      else case f src dest of (d, Some err) \<Rightarrow> Fail cfg d err | (d, None) \<Rightarrow> Ok cfg d)"

text \<open>\<^verbatim>\<open>fmt.Sprintf("%d", i)\<close> for an index.\<close>

fun digitChar :: "nat \<Rightarrow> char" where
  "digitChar n = char_of (48 + n)"

function itoa :: "nat \<Rightarrow> string" where
  "itoa n = (if n < 10 then [digitChar n] else itoa (n div 10) @ [digitChar (n mod 10)])"
  by pat_completeness auto
termination
  by (relation "measure (\<lambda>n. n)") auto

text \<open>
  The loop of \<open>mapSlice\<close> from position \<open>i\<close> over the remaining source elements; the
  destination of the loop is the new slice \<open>destSlice\<close>, and \<open>ea\<close> are the permission
  bits of the source elements (\<^verbatim>\<open>srcVal.Index(i)\<close>).
\<close>

fun mapSliceLoop :: "mapFn \<Rightarrow> MapperConfiguration \<Rightarrow> gval list \<Rightarrow> vflags \<Rightarrow> nat \<Rightarrow> gtype \<Rightarrow> gval list \<Rightarrow> (MapperConfiguration \<times> gval list) + outcome" where
  "mapSliceLoop mv cfg [] ea i destElemType destSlice = Inl (cfg, destSlice)"
| "mapSliceLoop mv cfg (srcElem # rest) ea i destElemType destSlice =
     (let res = (if Kind destElemType = KPtr
                 then inDest (\<lambda>d. Some (VPtr (stripPtr destElemType) (Some d)))
                        (mv cfg srcElem ea (zeroValue (stripPtr destElemType)))
                 else mv cfg srcElem ea (zeroValue destElemType))
      in case res of
           Ok cfg' d \<Rightarrow> mapSliceLoop mv cfg' rest ea (Suc i) destElemType (destSlice[i := d])
         | Fail cfg' d err \<Rightarrow>
             Inr (Fail cfg' d (MappingError (''error mapping slice element at index '' @ itoa i)
                                 None None [] (Some err)))
         | out \<Rightarrow> Inr out)"

fun elemOf :: "gtype \<Rightarrow> gtype" where
  "elemOf (TSlice t) = t"
| "elemOf (TPtr t) = t"
| "elemOf (TMap k v) = v"
| "elemOf t = t"

fun keyOf :: "gtype \<Rightarrow> gtype" where
  "keyOf (TMap k v) = k"
| "keyOf t = t"

text \<open>
  \<open>mapSlice\<close>. \<^verbatim>\<open>reflect.MakeSlice\<close> panics when the destination type is not a slice. When
  an element fails the new slice is dropped and the destination keeps its content.
\<close>

definition mapSlice :: "mapFn \<Rightarrow> MapperConfiguration \<Rightarrow> gval \<Rightarrow> vflags \<Rightarrow> gval \<Rightarrow> gtype \<Rightarrow> outcome" where
  "mapSlice mv cfg srcVal sa destVal destT =
     (case srcVal of
        VSlice et None \<Rightarrow>
          (if allowNilColl cfg then setOutcome cfg destVal (zeroValue destT)
           else if Kind destT \<noteq> KSlice then Panic
           else setOutcome cfg destVal (VSlice (elemOf destT) (Some [])))
      | VSlice et (Some xs) \<Rightarrow>
          (if Kind destT \<noteq> KSlice then Panic
           else case mapSliceLoop mv cfg xs (sliceIndex sa) 0 (elemOf destT)
                       (replicate (length xs) (zeroValue (elemOf destT))) of
                  Inl (cfg', destSlice) \<Rightarrow>
                    setOutcome cfg' destVal (VSlice (elemOf destT) (Some destSlice))
                | Inr (Fail cfg' d err) \<Rightarrow> Fail cfg' destVal err
                | Inr out \<Rightarrow> out)
      | _ \<Rightarrow> Panic)"

text \<open>\<^verbatim>\<open>destMap.SetMapIndex(k, v)\<close>: the entry of an equal key is replaced.\<close>

fun setMapIndex :: "(gval \<times> gval) list \<Rightarrow> gval \<Rightarrow> gval \<Rightarrow> (gval \<times> gval) list" where
  "setMapIndex [] k v = [(k, v)]"
| "setMapIndex ((k', v') # es) k v = (if k' = k then (k, v) # es else (k', v') # setMapIndex es k v)"

text \<open>
  The loop of \<open>mapMap\<close> over the entries of the source, in the order of the list (Go
  leaves the order of a map iteration open); \<open>ea\<close> are the permission bits of the keys
  and values that the iterator returns. The key is stored with \<^verbatim>\<open>Set\<close>, which panics on
  a read-only key, converted or not.
\<close>

fun mapMapLoop :: "mapFn \<Rightarrow> MapperConfiguration \<Rightarrow> (gval \<times> gval) list \<Rightarrow> vflags \<Rightarrow> gtype \<Rightarrow> gtype \<Rightarrow> (gval \<times> gval) list \<Rightarrow> (MapperConfiguration \<times> (gval \<times> gval) list) + outcome" where
  "mapMapLoop av cfg [] ea destKeyType destValType destMap = Inl (cfg, destMap)"
| "mapMapLoop av cfg ((srcKey, srcMapVal) # rest) ea destKeyType destValType destMap =
     (let keyRes =
            (if AssignableTo (typeOf srcKey) destKeyType
             then (if readOnly ea then Inr Panic
                   else case setValue (zeroValue destKeyType) srcKey of
                          None \<Rightarrow> Inr Panic | Some k \<Rightarrow> Inl k)
             else if ConvertibleTo (typeOf srcKey) destKeyType
             then (if readOnly ea then Inr Panic
                   else case convertValue srcKey destKeyType of
                          None \<Rightarrow> Inr NotModelled | Some k \<Rightarrow> Inl k)
             else Inr (Fail cfg VInvalid
                        (MappingError ''cannot convert map key'' (Some (typeOf srcKey))
                           (Some destKeyType) [] None)))
      in case keyRes of
           Inr out \<Rightarrow> Inr out
         | Inl destKey \<Rightarrow>
             (case av cfg srcMapVal ea (zeroValue destValType) of
                Ok cfg' destMapVal \<Rightarrow>
                  mapMapLoop av cfg' rest ea destKeyType destValType (setMapIndex destMap destKey destMapVal)
              | out \<Rightarrow> Inr out))"

definition mapMap :: "mapFn \<Rightarrow> MapperConfiguration \<Rightarrow> gval \<Rightarrow> vflags \<Rightarrow> gval \<Rightarrow> gtype \<Rightarrow> outcome" where
  "mapMap av cfg srcVal sa destVal destT =
     (case srcVal of
        VMap kt vt None \<Rightarrow>
          (if allowNilColl cfg then setOutcome cfg destVal (zeroValue destT)
           else if Kind destT \<noteq> KMap then Panic
           else setOutcome cfg destVal (VMap (keyOf destT) (elemOf destT) (Some [])))
      | VMap kt vt (Some es) \<Rightarrow>
          (if Kind destT \<noteq> KMap then Panic
           else case mapMapLoop av cfg es (mapIterElem sa) (keyOf destT) (elemOf destT) [] of
                  Inl (cfg', destMap) \<Rightarrow>
                    setOutcome cfg' destVal (VMap (keyOf destT) (elemOf destT) (Some destMap))
                | Inr (Fail cfg' d err) \<Rightarrow> Fail cfg' destVal err
                | Inr out \<Rightarrow> out)
      | _ \<Rightarrow> Panic)"

text \<open>
  \<open>mapMember\<close>. The destination field is read by its index path, the value assigned to
  it is stored back by the same path. The condition and the resolver receive
  \<^verbatim>\<open>srcVal.Interface()\<close> and the member converter \<^verbatim>\<open>srcValue.Interface()\<close>, which panic on
  a read-only value; a value returned by a callback is wrapped by \<^verbatim>\<open>reflect.ValueOf\<close>.
\<close>

definition mapMember :: "mapFn \<Rightarrow> MapperConfiguration \<Rightarrow> gval \<Rightarrow> vflags \<Rightarrow> gval \<Rightarrow> MemberMap \<Rightarrow> outcome" where
  "mapMember av cfg srcVal sa destVal mm =
     (if ignore mm then Ok cfg destVal
      else if (case condition mm of Some c \<Rightarrow> readOnly sa | None \<Rightarrow> False) then Panic
      else if (case condition mm of Some c \<Rightarrow> \<not> c srcVal | None \<Rightarrow> False) then Ok cfg destVal
      else case fieldByIndex destVal (destFieldIdx mm) of
        None \<Rightarrow> Panic
      | Some destFld \<Rightarrow>
          if \<not> canSetByIndex (structFields (typeOf destVal)) (destFieldIdx mm) then Ok cfg destVal
          else
            (case (case resolver mm of
                     Some r \<Rightarrow>
                       (if readOnly sa then Inr Panic
                        else case r srcVal destVal of
                          Inl err \<Rightarrow> Inr (Fail cfg destVal
                                      (MappingError ''resolver error'' None None (destField mm) (Some err)))
                        | Inr result \<Rightarrow> Inl (result, plainValue))
                   | None \<Rightarrow>
                       if length (srcFieldIdx mm) > 0
                       then Inl (getNestedField srcVal sa (srcFieldIdx mm))
                       else if srcField mm \<noteq> []
                       then (case FieldByName srcVal sa (srcField mm) of
                               None \<Rightarrow> Inr Panic | Some p \<Rightarrow> Inl p)
                       else Inr (Ok cfg destVal)) of
               Inr out \<Rightarrow> out
             | Inl (srcValue, a) \<Rightarrow>
                 if \<not> IsValid srcValue then Ok cfg destVal
                 else
                   (case (case converter mm of
                            Some c \<Rightarrow>
                              (if readOnly a then Inr Panic
                               else case c srcValue (typeOf destFld) of
                                 Inl err \<Rightarrow> Inr (Fail cfg destVal
                                             (MappingError ''converter error'' None None (destField mm) (Some err)))
                               | Inr result \<Rightarrow> Inl (result, plainValue))
                          | None \<Rightarrow> Inl (srcValue, a)) of
                      Inr out \<Rightarrow> out
                    | Inl (v, a') \<Rightarrow>
                        inDest (updateByIndex destVal (destFieldIdx mm)) (av cfg v a' destFld))))"

text \<open>The loop \<^verbatim>\<open>for _, mm := range typeMap.memberMaps\<close>: the first error ends it.\<close>

fun mapMembers :: "mapFn \<Rightarrow> MapperConfiguration \<Rightarrow> gval \<Rightarrow> vflags \<Rightarrow> gval \<Rightarrow> MemberMap list \<Rightarrow> outcome" where
  "mapMembers av cfg srcVal sa destVal [] = Ok cfg destVal"
| "mapMembers av cfg srcVal sa destVal (mm # rest) =
     andThen (mapMember av cfg srcVal sa destVal mm)
       (\<lambda>cfg' d. mapMembers av cfg' srcVal sa d rest)"

definition mapStructStandard :: "mapFn \<Rightarrow> MapperConfiguration \<Rightarrow> gval \<Rightarrow> vflags \<Rightarrow> gval \<Rightarrow> TypeMap \<Rightarrow> outcome" where
  "mapStructStandard av cfg srcVal sa destVal typeMap =
     andThen (runHooks (beforeMap typeMap) srcVal sa cfg destVal)
       (\<lambda>cfg1 d1.
          case customMapper typeMap of
            Some f \<Rightarrow> runCustomMapper f srcVal sa cfg1 d1
          | None \<Rightarrow>
              andThen (mapMembers av cfg1 srcVal sa d1 (memberMaps typeMap))
                (\<lambda>cfg2 d2. runHooks (afterMap typeMap) srcVal sa cfg2 d2))"

definition lookupRef :: "'a list \<Rightarrow> nat \<Rightarrow> 'a option" where
  "lookupRef xs r = (if r < length xs then Some (xs ! r) else None)"

text \<open>
  The closure returned by \<open>compileSpecializedMapper\<close>, run over the members it captured;
  \<open>mms\<close> are the member maps of the \<open>TypeMap\<close> as they are now. \<^verbatim>\<open>Field\<close> and \<^verbatim>\<open>Set\<close>
  panic as described above, and so does an empty index; \<^verbatim>\<open>Set\<close> also panics when the
  destination field cannot be set (it is unexported) and when the source field is
  read-only.
\<close>

fun specializedLoop :: "MemberMapOptimized list \<Rightarrow> MemberMap list \<Rightarrow> MapperConfiguration \<Rightarrow> gval \<Rightarrow> vflags \<Rightarrow> gval \<Rightarrow> outcome" where
  "specializedLoop [] mms cfg src sa dest = Ok cfg dest"
| "specializedLoop (omm # rest) mms cfg src sa dest =
     (case lookupRef mms (mmRef omm) of
        None \<Rightarrow> Panic
      | Some mm \<Rightarrow>
          if ignore mm then specializedLoop rest mms cfg src sa dest
          else if destFieldIdx mm = [] \<or> srcFieldIdx mm = [] then Panic
          else
            (case (fieldOf dest (destFieldIdx mm ! 0), fieldOf src (srcFieldIdx mm ! 0)) of
               (Some destFld, Some srcFld) \<Rightarrow>
                 if \<not> canSetByIndex (structFields (typeOf dest)) [destFieldIdx mm ! 0] then Panic
                 else if readOnly (fieldFlags sa (typeOf src) (srcFieldIdx mm ! 0)) then Panic
                 else
                 (case setValue destFld srcFld of
                    None \<Rightarrow> Panic
                  | Some v \<Rightarrow>
                      (case setFieldOf dest (destFieldIdx mm ! 0) v of
                         None \<Rightarrow> Panic
                       | Some dest' \<Rightarrow> specializedLoop rest mms cfg src sa dest'))
             | _ \<Rightarrow> Panic))"

text \<open>
  \<open>unsafeCopyField\<close>: the bytes of the source field are written over the destination
  field; the model copies the field found at the offset. No permission bit is consulted.
\<close>

definition unsafeCopyField :: "MapperConfiguration \<Rightarrow> gval \<Rightarrow> gval \<Rightarrow> nat \<Rightarrow> nat \<Rightarrow> outcome" where
  "unsafeCopyField cfg src dest srcOff destOff =
     (case fieldOf src srcOff of
        None \<Rightarrow> Panic
      | Some v \<Rightarrow> (case setFieldOf dest destOff v of None \<Rightarrow> Panic | Some d \<Rightarrow> Ok cfg d))"

text \<open>
  \<open>mapMemberUnsafe\<close>. The destination of a mapping is always addressable (it is reached
  through a pointer, a new slice or a new map entry), so of the two \<^verbatim>\<open>CanAddr()\<close> tests
  the one on the source decides.
\<close>

definition mapMemberUnsafe :: "mapFn \<Rightarrow> MapperConfiguration \<Rightarrow> gval \<Rightarrow> vflags \<Rightarrow> gval \<Rightarrow> MemberMap list \<Rightarrow> MemberMapOptimized \<Rightarrow> outcome" where
  "mapMemberUnsafe av cfg srcVal sa destVal mms omm =
     (case lookupRef mms (mmRef omm) of
        None \<Rightarrow> Panic
      | Some mm \<Rightarrow>
          if ignore mm then Ok cfg destVal
          else if directAssign omm \<and> isPrimitive omm \<and> length (srcFieldIdx mm) = 1 \<and> canAddr sa
          then unsafeCopyField cfg srcVal destVal (srcOffset omm) (destOffset omm)
          else mapMember av cfg srcVal sa destVal mm)"

fun mapMembersUnsafe :: "mapFn \<Rightarrow> MapperConfiguration \<Rightarrow> gval \<Rightarrow> vflags \<Rightarrow> gval \<Rightarrow> MemberMap list \<Rightarrow> MemberMapOptimized list \<Rightarrow> outcome" where
  "mapMembersUnsafe av cfg srcVal sa destVal mms [] = Ok cfg destVal"
| "mapMembersUnsafe av cfg srcVal sa destVal mms (omm # rest) =
     andThen (mapMemberUnsafe av cfg srcVal sa destVal mms omm)
       (\<lambda>cfg' d. mapMembersUnsafe av cfg' srcVal sa d mms rest)"

text \<open>\<open>mapStructOptimized\<close>, for the \<open>TypeMap\<close> \<open>tm\<close> that \<open>typeMap.TypeMap\<close> points to.\<close>

definition mapStructOptimized :: "mapFn \<Rightarrow> MapperConfiguration \<Rightarrow> gval \<Rightarrow> vflags \<Rightarrow> gval \<Rightarrow> TypeMapOptimized \<Rightarrow> TypeMap \<Rightarrow> outcome" where
  "mapStructOptimized av cfg srcVal sa destVal typeMap tm =
     andThen (if length (beforeMap tm) > 0 then runHooks (beforeMap tm) srcVal sa cfg destVal
              else Ok cfg destVal)
       (\<lambda>cfg1 d1.
          case customMapper tm of
            Some f \<Rightarrow> runCustomMapper f srcVal sa cfg1 d1
          | None \<Rightarrow>
              (let hasHooks = (length (beforeMap tm) > 0 \<or> length (afterMap tm) > 0
                               \<or> customMapper tm \<noteq> None)
               in andThen
                    (case specializedFn typeMap of
                       Some members \<Rightarrow>
                         if \<not> hasHooks then specializedLoop members (memberMaps tm) cfg1 srcVal sa d1
                         else if useUnsafe cfg1
                         then mapMembersUnsafe av cfg1 srcVal sa d1 (memberMaps tm) (optimizedMembers typeMap)
                         else mapMembers av cfg1 srcVal sa d1 (memberMaps tm)
                     | None \<Rightarrow>
                         if useUnsafe cfg1
                         then mapMembersUnsafe av cfg1 srcVal sa d1 (memberMaps tm) (optimizedMembers typeMap)
                         else mapMembers av cfg1 srcVal sa d1 (memberMaps tm))
                    (\<lambda>cfg2 d2. if length (afterMap tm) > 0 then runHooks (afterMap tm) srcVal sa cfg2 d2
                                else Ok cfg2 d2)))"

text \<open>
  \<open>mapStruct\<close>. The optimized map is read before a missing \<open>TypeMap\<close> is created, so the
  call that creates one takes the standard path.
\<close>

definition mapStruct :: "mapFn \<Rightarrow> MapperConfiguration \<Rightarrow> gval \<Rightarrow> vflags \<Rightarrow> gval \<Rightarrow> gtype \<Rightarrow> gtype \<Rightarrow> outcome" where
  "mapStruct av cfg srcVal sa destVal srcT destT =
     (let key = (srcT, destT);
          optMap = optimizedMaps cfg key;
          level = optLevel cfg
      in case (case typeMaps cfg key of
                 Some r \<Rightarrow> Some (cfg, r)
               | None \<Rightarrow> autoCreateTypeMap cfg srcT destT) of
           None \<Rightarrow> Panic
         | Some (cfg', r) \<Rightarrow>
             (case optMap of
                Some om \<Rightarrow>
                  if level > OptimizationNone \<and> compiled om
                  then (case lookupRef (store cfg') (tmRef om) of
                          None \<Rightarrow> Panic
                        | Some tm \<Rightarrow> mapStructOptimized av cfg' srcVal sa destVal om tm)
                  else (case lookupRef (store cfg') r of
                          None \<Rightarrow> Panic
                        | Some tm \<Rightarrow> mapStructStandard av cfg' srcVal sa destVal tm)
              | None \<Rightarrow>
                  (case lookupRef (store cfg') r of
                     None \<Rightarrow> Panic
                   | Some tm \<Rightarrow> mapStructStandard av cfg' srcVal sa destVal tm)))"

text \<open>
  The registered converter for the pair of types, applied to \<^verbatim>\<open>srcVal.Interface()\<close>
  (a panic on a read-only source): its error is returned as it is, its result is stored
  with \<^verbatim>\<open>Set\<close>.
\<close>

definition applyConverter :: "TypeConverter \<Rightarrow> MapperConfiguration \<Rightarrow> gval \<Rightarrow> vflags \<Rightarrow> gval \<Rightarrow> outcome" where
  "applyConverter conv cfg srcVal sa destVal =
     (if readOnly sa then Panic
      else case conv srcVal (typeOf destVal) of
             Inl err \<Rightarrow> Fail cfg destVal err
           | Inr result \<Rightarrow> setOutcome cfg destVal result)"

text \<open>
  The body of \<open>assignValue\<close>, with \<open>mv\<close> and \<open>av\<close> for its calls of \<open>mapValue\<close> and of
  itself. \<^verbatim>\<open>Convert\<close> keeps the read-only bit of its argument, so the \<^verbatim>\<open>Set\<close> of a
  converted read-only value panics.
\<close>

definition assignValueBody :: "mapFn \<Rightarrow> mapFn \<Rightarrow> mapFn" where
  "assignValueBody mv av cfg srcVal0 sa0 destVal =
     (case derefValue srcVal0 sa0 of
        (srcVal, sa) \<Rightarrow>
          if \<not> IsValid srcVal then Ok cfg destVal
          else
            (let srcT = typeOf srcVal; destT = typeOf destVal in
             if Kind destT = KPtr then
               (case destVal of
                  VPtr t p \<Rightarrow>
                    if (case srcVal of VPtr u None \<Rightarrow> True | _ \<Rightarrow> False) then Ok cfg destVal
                    else inDest (\<lambda>d. Some (VPtr t (Some d)))
                           (av cfg srcVal sa (case p of None \<Rightarrow> zeroValue t | Some d \<Rightarrow> d))
                | _ \<Rightarrow> Panic)
             else
               (case converters cfg (srcT, destT) of
                  Some conv \<Rightarrow> applyConverter conv cfg srcVal sa destVal
                | None \<Rightarrow>
                    if AssignableTo srcT destT then setFrom cfg destVal srcVal sa
                    else if ConvertibleTo srcT destT then
                      (if readOnly sa then Panic
                       else case convertValue srcVal destT of
                         None \<Rightarrow> NotModelled
                       | Some v \<Rightarrow> setOutcome cfg destVal v)
                    else if Kind srcT = KStruct \<and> Kind destT = KStruct then mv cfg srcVal sa destVal
                    else if Kind srcT = KSlice \<and> Kind destT = KSlice
                    then mapSlice mv cfg srcVal sa destVal destT
                    else Fail cfg destVal
                           (MappingError ''cannot assign value'' (Some srcT) (Some destT) [] None))))"

text \<open>
  The body of \<open>mapValue\<close>. \<open>mapValueCore\<close> is the part after the destination pointer has
  been followed (and allocated if it was nil).
\<close>

definition mapValueCore :: "mapFn \<Rightarrow> mapFn \<Rightarrow> mapFn" where
  "mapValueCore mv av cfg srcVal sa destVal =
     (let srcT = typeOf srcVal; destT = typeOf destVal in
      case converters cfg (srcT, destT) of
        Some conv \<Rightarrow> applyConverter conv cfg srcVal sa destVal
      | None \<Rightarrow>
          if Kind srcT = KStruct then mapStruct av cfg srcVal sa destVal srcT destT
          else if Kind srcT = KSlice then mapSlice mv cfg srcVal sa destVal destT
          else if Kind srcT = KMap then mapMap av cfg srcVal sa destVal destT
          else if AssignableTo srcT destT then setFrom cfg destVal srcVal sa
          else if ConvertibleTo srcT destT then
            (if readOnly sa then Panic
             else case convertValue srcVal destT of
               None \<Rightarrow> NotModelled
             | Some v \<Rightarrow> setOutcome cfg destVal v)
          else Fail cfg destVal
                 (MappingError ''incompatible types'' (Some srcT) (Some destT) [] None))"

definition mapValueBody :: "mapFn \<Rightarrow> mapFn \<Rightarrow> mapFn" where
  "mapValueBody mv av cfg srcVal0 sa0 destVal =
     (if \<not> IsValid srcVal0 then Ok cfg destVal
      else case derefValue srcVal0 sa0 of
        (srcVal, sa) \<Rightarrow>
          if \<not> IsValid srcVal then Ok cfg destVal
          else
            (case destVal of
               VPtr t p \<Rightarrow>
                 inDest (\<lambda>d. Some (VPtr t (Some d)))
                   (mapValueCore mv av cfg srcVal sa (case p of None \<Rightarrow> zeroValue t | Some d \<Rightarrow> d))
             | _ \<Rightarrow> mapValueCore mv av cfg srcVal sa destVal))"

text \<open>
  \<open>mapValue\<close> and \<open>assignValue\<close> call each other through slices, maps and nested
  structs, and a callback may return a value of any size, so the recursion is bounded by
  a budget: each call of one of the two spends one unit.
\<close>

fun mapValue :: "nat \<Rightarrow> mapFn"
  and assignValue :: "nat \<Rightarrow> mapFn" where
  "mapValue 0 cfg srcVal sa destVal = OutOfFuel"
| "mapValue (Suc n) cfg srcVal sa destVal =
     mapValueBody (\<lambda>c s a d. mapValue n c s a d) (\<lambda>c s a d. assignValue n c s a d) cfg srcVal sa destVal"
| "assignValue 0 cfg srcVal sa destVal = OutOfFuel"
| "assignValue (Suc n) cfg srcVal sa destVal =
     assignValueBody (\<lambda>c s a d. mapValue n c s a d) (\<lambda>c s a d. assignValue n c s a d) cfg srcVal sa destVal"

section \<open>Construction and configuration calls (mapper.go, builder)\<close>

definition New :: MapperConfiguration where
  "New = \<lparr>typeMaps = Map.empty, store = [], converters = Map.empty, allowNilColl = False,
           optLevel = OptimizationNone, useUnsafe = False, optimizedMaps = Map.empty\<rparr>"

type_synonym ConfigOption = "MapperConfiguration \<Rightarrow> MapperConfiguration"

definition NewWithConfig :: "ConfigOption list \<Rightarrow> MapperConfiguration" where
  "NewWithConfig opts = fold (\<lambda>opt c. opt c) opts New"

definition WithAllowNullCollections :: ConfigOption where
  "WithAllowNullCollections c = c\<lparr>allowNilColl := True\<rparr>"

definition WithOptimizationLevel :: "OptimizationLevel \<Rightarrow> ConfigOption" where
  "WithOptimizationLevel level c =
     (if level \<ge> OptimizationUnsafe then c\<lparr>optLevel := level, useUnsafe := True\<rparr>
      else c\<lparr>optLevel := level\<rparr>)"

definition WithUnsafeOptimizations :: ConfigOption where
  "WithUnsafeOptimizations c =
     (if optLevel c < OptimizationUnsafe then c\<lparr>useUnsafe := True, optLevel := OptimizationUnsafe\<rparr>
      else c\<lparr>useUnsafe := True\<rparr>)"

definition WithPooling :: ConfigOption where
  "WithPooling c = (if optLevel c < OptimizationPooled then c\<lparr>optLevel := OptimizationPooled\<rparr> else c)"

definition WithSpecializedMappers :: ConfigOption where
  "WithSpecializedMappers c = c\<lparr>optLevel := OptimizationSpecialized, useUnsafe := True\<rparr>"

text \<open>
  A \<open>TypeMapBuilder[TSrc, TDest]\<close>: the address of its \<open>TypeMap\<close> and the two type
  parameters. The mapper it points to is the configuration passed to each call.
\<close>

record TypeMapBuilder =
  typeMapRef :: nat
  TSrc :: gtype
  TDest :: gtype

text \<open>
  \<open>CreateMap\<close>: always a new auto-configured \<open>TypeMap\<close>, stored under the key of the two
  types with one pointer stripped. \<open>None\<close> is a panic: \<^verbatim>\<open>reflect.TypeOf\<close> of the zero value
  of an interface type is nil, or the compilation panics.
\<close>

definition CreateMap :: "MapperConfiguration \<Rightarrow> gtype \<Rightarrow> gtype \<Rightarrow> (MapperConfiguration \<times> TypeMapBuilder) option" where
  "CreateMap cfg tsrc tdest =
     (if tsrc = TIface \<or> tdest = TIface then None
      else
        (let srcT = (if Kind tsrc = KPtr then stripPtr tsrc else tsrc);
             destT = (if Kind tdest = KPtr then stripPtr tdest else tdest);
             tm = autoConfigureMembers (newTypeMap srcT destT)
         in case registerTypeMap cfg (srcT, destT) tm of
              None \<Rightarrow> None
            | Some (cfg', r) \<Rightarrow> Some (cfg', \<lparr>typeMapRef = r, TSrc = tsrc, TDest = tdest\<rparr>)))"

type_synonym MemberOption = "MemberMap \<Rightarrow> MemberMap"

definition MapFrom :: "string \<Rightarrow> MemberOption" where
  "MapFrom srcFieldName mm = mm\<lparr>srcField := srcFieldName\<rparr>"

definition MapFromFunc :: "ValueResolver \<Rightarrow> MemberOption" where
  "MapFromFunc r mm = mm\<lparr>resolver := Some r\<rparr>"

definition Ignore :: MemberOption where
  "Ignore mm = mm\<lparr>ignore := True\<rparr>"

definition Condition :: "ConditionFunc \<Rightarrow> MemberOption" where
  "Condition cond mm = mm\<lparr>condition := Some cond\<rparr>"


text \<open>Position of the first member map for a destination field name.\<close>

fun findMember :: "MemberMap list \<Rightarrow> string \<Rightarrow> nat \<Rightarrow> nat option" where
  "findMember [] n i = None"
| "findMember (mm # rest) n i = (if destField mm = n then Some i else findMember rest n (Suc i))"

definition updateTypeMap :: "MapperConfiguration \<Rightarrow> nat \<Rightarrow> (TypeMap \<Rightarrow> TypeMap) \<Rightarrow> MapperConfiguration" where
  "updateTypeMap cfg r f =
     (if r < length (store cfg) then cfg\<lparr>store := (store cfg)[r := f (store cfg ! r)]\<rparr> else cfg)"

text \<open>
  \<open>ForMemberByName\<close>: the options are applied to the member map of that destination
  field, or to a new one (with the destination index only) when the destination type has
  such a field and no member map yet.
\<close>

definition ForMemberByName :: "MapperConfiguration \<Rightarrow> TypeMapBuilder \<Rightarrow> string \<Rightarrow> MemberOption list \<Rightarrow> MapperConfiguration" where
  "ForMemberByName cfg b destMemberName opts =
     updateTypeMap cfg (typeMapRef b)
       (\<lambda>tm.
          let destT = (if Kind (TDest b) = KPtr then stripPtr (TDest b) else TDest b) in
          case findMember (memberMaps tm) destMemberName 0 of
            Some i \<Rightarrow> tm\<lparr>memberMaps := (memberMaps tm)[i := fold (\<lambda>opt mm. opt mm) opts (memberMaps tm ! i)]\<rparr>
          | None \<Rightarrow>
              (case fieldsByName (getTypeInfo destT) destMemberName of
                 Some fi \<Rightarrow>
                   tm\<lparr>memberMaps := memberMaps tm @
                        [fold (\<lambda>opt mm. opt mm) opts
                           (emptyMemberMap\<lparr>destField := destMemberName, destFieldIdx := index fi\<rparr>)]\<rparr>
               | None \<Rightarrow> tm))"




definition customClosure :: "gtype \<Rightarrow> gtype \<Rightarrow> CustomMapperFunc \<Rightarrow> CustomMapperFunc" where
  "customClosure tsrc tdest fn s d =
     (if typeOf s \<noteq> tsrc
      then (d, Some (MappingError ''invalid source type for custom mapper'' None None [] None))
      else if typeOf d \<noteq> tdest
      then (d, Some (MappingError ''invalid destination type for custom mapper'' None None [] None))
      else fn s d)"

definition CustomMap :: "MapperConfiguration \<Rightarrow> TypeMapBuilder \<Rightarrow> CustomMapperFunc \<Rightarrow> MapperConfiguration" where
  "CustomMap cfg b fn =
     updateTypeMap cfg (typeMapRef b)
       (\<lambda>tm. tm\<lparr>customMapper := Some (customClosure (TSrc b) (TDest b) fn)\<rparr>)"

definition ReverseMap :: "MapperConfiguration \<Rightarrow> TypeMapBuilder \<Rightarrow> (MapperConfiguration \<times> TypeMapBuilder) option" where
  "ReverseMap cfg b = CreateMap cfg (TDest b) (TSrc b)"

text \<open>\<open>ConvertUsing\<close>: the key is the pair of type parameters as they are.\<close>

definition ConvertUsing :: "MapperConfiguration \<Rightarrow> gtype \<Rightarrow> gtype \<Rightarrow> (gval \<Rightarrow> error + gval) \<Rightarrow> MapperConfiguration" where
  "ConvertUsing cfg tsrc tdest conv =
     cfg\<lparr>converters := (converters cfg)((tsrc, tdest) \<mapsto>
        (\<lambda>s dt. if typeOf s \<noteq> tsrc
                 then Inl (MappingError ''invalid source type for converter'' None None [] None)
                 else conv s))\<rparr>"

section \<open>Mapping calls (engine.go)\<close>

text \<open>
  \<open>Map\<close> maps into the zero value of \<open>TDest\<close> and returns it with the error: \<open>Ok cfg d\<close>
  is \<^verbatim>\<open>(d, nil)\<close> and \<open>Fail cfg d e\<close> is \<^verbatim>\<open>(d, e)\<close>. \<open>MapTo\<close> maps into the destination the
  caller points to. The first argument is the recursion budget. The source is wrapped by
  \<^verbatim>\<open>reflect.ValueOf\<close>.
\<close>

definition Map :: "nat \<Rightarrow> MapperConfiguration \<Rightarrow> gtype \<Rightarrow> gval \<Rightarrow> outcome" where
  "Map n cfg tdest src = mapValue n cfg src plainValue (zeroValue tdest)"

definition MapTo :: "nat \<Rightarrow> MapperConfiguration \<Rightarrow> gval \<Rightarrow> gval \<Rightarrow> outcome" where
  "MapTo n cfg src dest = mapValue n cfg src plainValue dest"

text \<open>
  \<open>MapSlice\<close>: the source is \<open>None\<close> for a nil slice. The result slice is the destination
  of the outcome; on an error the call returns the nil slice.
\<close>

fun MapSliceLoop :: "nat \<Rightarrow> MapperConfiguration \<Rightarrow> gtype \<Rightarrow> gval list \<Rightarrow> nat \<Rightarrow> gval list \<Rightarrow> outcome" where
  "MapSliceLoop n cfg tdest [] i result = Ok cfg (VSlice tdest (Some result))"
| "MapSliceLoop n cfg tdest (s # rest) i result =
     (case Map n cfg tdest s of
        Ok cfg' dest \<Rightarrow> MapSliceLoop n cfg' tdest rest (Suc i) (result[i := dest])
      | Fail cfg' dest err \<Rightarrow>
          Fail cfg' (VSlice tdest None)
            (MappingError (''error mapping element at index '' @ itoa i) None None [] (Some err))
      | out \<Rightarrow> out)"

definition MapSlice :: "nat \<Rightarrow> MapperConfiguration \<Rightarrow> gtype \<Rightarrow> gval list option \<Rightarrow> outcome" where
  "MapSlice n cfg tdest src =
     (case src of
        None \<Rightarrow> (if allowNilColl cfg then Ok cfg (VSlice tdest None)
                 else Ok cfg (VSlice tdest (Some [])))
      | Some xs \<Rightarrow> MapSliceLoop n cfg tdest xs 0 (replicate (length xs) (zeroValue tdest)))"

section \<open>Reading an outcome\<close>

fun destOf :: "outcome \<Rightarrow> gval option" where
  "destOf (Ok cfg d) = Some d"
| "destOf (Fail cfg d e) = Some d"
| "destOf out = None"

fun errOf :: "outcome \<Rightarrow> error option" where
  "errOf (Fail cfg d e) = Some e"
| "errOf out = None"

fun panics :: "outcome \<Rightarrow> bool" where
  "panics Panic = True"
| "panics out = False"

section \<open>The flattening walk as the specification words it\<close>

text \<open>
  Section 4.2 of the specification: look the first part up as a field of the source
  type; for every part but the last, the field's type with a pointer unwrapped must be a
  record type, and the walk goes on in it with the next part. The result is the full
  traversal path. This definition follows the specification, not \<open>tryFlattenMatch\<close>.
\<close>

fun flattenWalkSpec :: "gtype \<Rightarrow> string list \<Rightarrow> nat list option" where
  "flattenWalkSpec t [] = Some []"
| "flattenWalkSpec t [p] = map_option index (fieldsByName (getTypeInfo t) p)"
| "flattenWalkSpec t (p # q # ps) =
     (case fieldsByName (getTypeInfo t) p of
        None \<Rightarrow> None
      | Some f \<Rightarrow>
          if Kind (stripPtr (fieldType f)) = KStruct
          then map_option (\<lambda>rest. index f @ rest) (flattenWalkSpec (stripPtr (fieldType f)) (q # ps))
          else None)"

section \<open>Records whose matched fields have one primitive type\<close>

text \<open>
  Predicates for stating when the optimized paths and the standard path agree. A proper
  value is valid and, if it is a struct, has a struct type; a typed struct has the given
  type and one proper value of the declared type per field. A direct rule has no
  condition, resolver or converter and binds one top-level exported destination field to
  one top-level exported source field of the same primitive type; \<open>compiledDirect\<close> is what
  \<open>directAssign\<close> records about a member map at compilation.
\<close>

definition properValue :: "gval \<Rightarrow> bool" where
  "properValue v =
     (case v of
        VInvalid \<Rightarrow> False
      | VStruct t vs \<Rightarrow> (case t of TStruct n fs \<Rightarrow> True | _ \<Rightarrow> False)
      | _ \<Rightarrow> True)"

definition typedStruct :: "gtype \<Rightarrow> gval \<Rightarrow> bool" where
  "typedStruct t v =
     (case v of
        VStruct t' vs \<Rightarrow> t' = t \<and> map typeOf vs = map ftype (structFields t) \<and> list_all properValue vs
      | _ \<Rightarrow> False)"

definition directRule :: "gtype \<Rightarrow> gtype \<Rightarrow> MemberMap \<Rightarrow> bool" where
  "directRule st dt mm =
     (condition mm = None \<and> resolver mm = None \<and> converter mm = None
      \<and> (case (srcFieldIdx mm, destFieldIdx mm) of
            ([i], [j]) \<Rightarrow>
              i < length (structFields st) \<and> j < length (structFields dt)
              \<and> ftype (structFields st ! i) = ftype (structFields dt ! j)
              \<and> isPrimitiveKind (Kind (ftype (structFields st ! i)))
              \<and> IsExported (structFields st ! i)
              \<and> IsExported (structFields dt ! j)
          | _ \<Rightarrow> False))"

definition compiledDirect :: "TypeMap \<Rightarrow> MemberMap \<Rightarrow> MemberMapOptimized \<Rightarrow> bool" where
  "compiledDirect tm mm omm =
     (\<exists>a b. srcFieldIdx mm = [a] \<and> destFieldIdx mm = [b]
        \<and> a < length (structFields (srcType tm)) \<and> b < length (structFields (destType tm))
        \<and> ftype (structFields (srcType tm) ! a) = ftype (structFields (destType tm) ! b)
        \<and> isPrimitiveKind (Kind (ftype (structFields (srcType tm) ! a)))
        \<and> srcOffset omm = a \<and> destOffset omm = b)"

section \<open>Example types, values and configurations\<close>

definition stringT :: gtype where "stringT = TBasic KString ''string''"
definition intT :: gtype where "intT = TBasic KInt ''int''"
definition int32T :: gtype where "int32T = TBasic KInt32 ''int32''"
definition int64T :: gtype where "int64T = TBasic KInt64 ''int64''"

definition str :: "string \<Rightarrow> gval" where "str s = VBasic KString ''string'' (LStr s)"
definition num :: "int \<Rightarrow> gval" where "num i = VBasic KInt ''int'' (LInt i)"

text \<open>The types of the flattening example: an order with a nested customer.\<close>

definition Customer :: gtype where
  "Customer = TStruct ''Customer'' [SField ''Name'' stringT False]"

definition Order :: gtype where
  "Order = TStruct ''Order'' [SField ''Customer'' Customer False, SField ''Total'' intT False]"

definition OrderDTO :: gtype where
  "OrderDTO = TStruct ''OrderDTO''
     [SField ''Total'' intT False, SField ''CustomerName'' stringT False,
      SField ''CustomerAge'' intT False]"



text \<open>The field descriptors of \<open>OrderDTO\<close>.\<close>

definition totalField :: fieldInfo where
  "totalField = \<lparr>name = ''Total'', index = [0], fieldType = intT, canSet = True\<rparr>"
definition customerNameField :: fieldInfo where
  "customerNameField = \<lparr>name = ''CustomerName'', index = [1], fieldType = stringT, canSet = True\<rparr>"
definition customerAgeField :: fieldInfo where
  "customerAgeField = \<lparr>name = ''CustomerAge'', index = [2], fieldType = intT, canSet = True\<rparr>"

text \<open>The record types of the repository's basic tests.\<close>

definition SourceBasic :: gtype where
  "SourceBasic = TStruct ''SourceBasic''
     [SField ''Name'' stringT False, SField ''Age'' intT False, SField ''Email'' stringT False]"

definition DestBasic :: gtype where
  "DestBasic = TStruct ''DestBasic''
     [SField ''Name'' stringT False, SField ''Age'' intT False, SField ''Email'' stringT False]"

definition john :: gval where
  "john = VStruct SourceBasic [str ''John'', num 30, str ''john@example.com'']"

text \<open>
  A mapper built with the given options and one registered type pair, and a default
  mapper whose one registered pair has one destination member refined by name.
\<close>

definition mapperFor :: "ConfigOption list \<Rightarrow> gtype \<Rightarrow> gtype \<Rightarrow> MapperConfiguration" where
  "mapperFor opts s d =
     (case CreateMap (NewWithConfig opts) s d of Some (c, b) \<Rightarrow> c | None \<Rightarrow> NewWithConfig opts)"

definition withMember :: "gtype \<Rightarrow> gtype \<Rightarrow> string \<Rightarrow> MemberOption list \<Rightarrow> MapperConfiguration" where
  "withMember s d n opts =
     (case CreateMap New s d of Some (c, b) \<Rightarrow> ForMemberByName c b n opts | None \<Rightarrow> New)"

text \<open>Two all-primitive records whose one field differs in its integer type.\<close>

definition Src32 :: gtype where
  "Src32 = TStruct ''Src32'' [SField ''Age'' int32T False]"

definition Dst64 :: gtype where
  "Dst64 = TStruct ''Dst64'' [SField ''Age'' int64T False]"

definition age7 :: gval where
  "age7 = VStruct Src32 [VBasic KInt32 ''int32'' (LInt 7)]"

text \<open>Two records with one string field, and a converter from string to string.\<close>

definition SrcName :: gtype where
  "SrcName = TStruct ''SrcName'' [SField ''Name'' stringT False]"

definition DstName :: gtype where
  "DstName = TStruct ''DstName'' [SField ''Name'' stringT False]"

definition shout :: "gval \<Rightarrow> error + gval" where
  "shout v = Inr (str ''CONVERTED'')"

text \<open>A source with two string fields, a destination that shares one name and one that
  shares none.\<close>

definition SrcAlt :: gtype where
  "SrcAlt = TStruct ''SrcAlt'' [SField ''Name'' stringT False, SField ''FullName'' stringT False]"

definition DstAlt :: gtype where
  "DstAlt = TStruct ''DstAlt'' [SField ''Name'' stringT False]"

definition DstOther :: gtype where
  "DstOther = TStruct ''DstOther'' [SField ''Label'' stringT False]"

text \<open>A resolver that fails, and the member map that binds \<open>Email\<close> to it.\<close>

definition failingResolver :: ValueResolver where
  "failingResolver s d = Inl (UserError ''boom'')"


text \<open>Records with a slice field: of strings on both sides, and of two item types.\<close>

definition Tagged :: gtype where
  "Tagged = TStruct ''Tagged'' [SField ''Tags'' (TSlice stringT) False]"

definition TaggedDTO :: gtype where
  "TaggedDTO = TStruct ''TaggedDTO'' [SField ''Tags'' (TSlice stringT) False]"

definition Item :: gtype where
  "Item = TStruct ''Item'' [SField ''ID'' intT False]"

definition ItemDTO :: gtype where
  "ItemDTO = TStruct ''ItemDTO'' [SField ''ID'' intT False]"

definition Basket :: gtype where
  "Basket = TStruct ''Basket'' [SField ''Items'' (TSlice Item) False]"

definition BasketDTO :: gtype where
  "BasketDTO = TStruct ''BasketDTO'' [SField ''Items'' (TSlice ItemDTO) False]"



















section \<open>Auxiliary facts\<close>

lemma stripPtr_nonptr: "Kind t \<noteq> KPtr \<Longrightarrow> stripPtr t = t"
  by (cases t) auto

text \<open>The auto-configured \<open>TypeMap\<close> of the basic pair and its map compiled for specialized mappers.\<close>

definition basicTypeMap :: TypeMap where
  "basicTypeMap = autoConfigureMembers (newTypeMap SourceBasic DestBasic)"

definition basicOptMap :: TypeMapOptimized where
  "basicOptMap =
     (case compileOptimizedTypeMap 0 basicTypeMap OptimizationSpecialized of
        Some om \<Rightarrow> om
      | None \<Rightarrow> \<lparr>tmRef = 0, optimizedMembers = [], specializedFn = None, allPrimitive = False,
                  hasCustomLogic = True, compiled = False\<rparr>)"

section \<open>Type metadata cache: the flattened field list\<close>






section \<open>Claims about the type metadata cache\<close>




section \<open>Claims about automatic matching\<close>

lemma tryFlattenLoop_spec:
  "tryFlattenLoop path t acc = map_option (\<lambda>rest. acc @ rest) (flattenWalkSpec t path)"
proof (induction path arbitrary: t acc)
  case Nil
  show ?case by simp
next
  case (Cons p ps)
  show ?case
  proof (cases ps)
    case Nil
    then show ?thesis by (simp add: option.map_comp comp_def split: option.splits)
  next
    case (Cons q qs)
    show ?thesis
    proof (cases "fieldsByName (getTypeInfo t) p")
      case None
      then show ?thesis using Cons by simp
    next
      case (Some f)
      have k: "(if Kind (fieldType f) = KPtr then stripPtr (fieldType f) else fieldType f) = stripPtr (fieldType f)"
        by (simp add: stripPtr_nonptr)
      show ?thesis
        using Some Cons Cons.IH[of "stripPtr (fieldType f)" "acc @ index f"]
        by (simp add: k Let_def option.map_comp comp_def)
    qed
  qed
qed

lemma findSourceMember_destField:
  "findSourceMember tm d = Some mm \<Longrightarrow> destField mm = name d"
  by (auto simp: findSourceMember_def tryFlattenMatch_def emptyMemberMap_def Let_def
           split: option.splits if_splits)

lemma findSourceMember_None_cong:
  "srcType tm = srcType tm' \<Longrightarrow> name d = name d' \<Longrightarrow>
   findSourceMember tm d = None \<Longrightarrow> findSourceMember tm' d' = None"
  by (auto simp: findSourceMember_def tryFlattenMatch_def Let_def split: option.splits if_splits)

lemma autoConfigureLoop_members:
  "mm \<in> set (memberMaps (autoConfigureLoop ds tm)) \<Longrightarrow>
   mm \<in> set (memberMaps tm) \<or>
   (\<exists>d' \<in> set ds. \<exists>tm'. srcType tm' = srcType tm \<and> findSourceMember tm' d' = Some mm)"
proof (induction ds arbitrary: tm)
  case Nil
  then show ?case by simp
next
  case (Cons d ds)
  show ?case
  proof (cases "findSourceMember tm d")
    case None
    with Cons.prems have "mm \<in> set (memberMaps (autoConfigureLoop ds tm))" by simp
    from Cons.IH[OF this] show ?thesis by auto
  next
    case (Some m)
    let ?tm1 = "tm\<lparr>memberMaps := memberMaps tm @ [m]\<rparr>"
    from Cons.prems Some have "mm \<in> set (memberMaps (autoConfigureLoop ds ?tm1))" by simp
    from Cons.IH[OF this] consider "mm \<in> set (memberMaps tm)" | "mm = m"
      | "\<exists>d' \<in> set ds. \<exists>tm'. srcType tm' = srcType tm \<and> findSourceMember tm' d' = Some mm"
      by auto
    then show ?thesis
    proof cases
      case 1 then show ?thesis by simp
    next
      case 2
      with Some have "findSourceMember tm d = Some mm" by simp
      then show ?thesis by auto
    next
      case 3 then show ?thesis by auto
    qed
  qed
qed

lemma autoConfigure_unmatched_absent:
  assumes "findSourceMember (newTypeMap st dt) d = None"
    and "mm \<in> set (memberMaps (autoConfigureMembers (newTypeMap st dt)))"
  shows "destField mm \<noteq> name d"
proof
  assume eq: "destField mm = name d"
  from assms(2) have "mm \<in> set (memberMaps (newTypeMap st dt)) \<or>
    (\<exists>d' \<in> set (tiFields (getTypeInfo (destType (newTypeMap st dt)))). \<exists>tm'.
        srcType tm' = srcType (newTypeMap st dt) \<and> findSourceMember tm' d' = Some mm)"
    unfolding autoConfigureMembers_def by (rule autoConfigureLoop_members)
  then obtain d' tm' where h: "srcType tm' = srcType (newTypeMap st dt)"
      "findSourceMember tm' d' = Some mm"
    by (auto simp: newTypeMap_def)
  from h(2) have "destField mm = name d'" by (rule findSourceMember_destField)
  with eq have "name d = name d'" by simp
  from findSourceMember_None_cong[OF h(1)[symmetric] this assms(1)] h(2) show False by simp
qed

text \<open>
  \<open>findSourceMember\<close> reads the source type of the \<open>TypeMap\<close> and nothing else, so the
  rules appended while the loop of \<open>autoConfigureMembers\<close> runs do not change what it
  finds: the loop appends, in the order of the destination fields, the rule of every
  field that has one.
\<close>

lemma findSourceMember_srcType:
  "srcType tm' = srcType tm \<Longrightarrow> findSourceMember tm' = findSourceMember tm"
  by (intro ext) (simp add: findSourceMember_def tryFlattenMatch_def Let_def split: option.splits)

lemma autoConfigureLoop_appends:
  "memberMaps (autoConfigureLoop ds tm) = memberMaps tm @ List.map_filter (findSourceMember tm) ds"
proof (induction ds arbitrary: tm)
  case Nil
  show ?case by simp
next
  case (Cons d ds)
  show ?case
  proof (cases "findSourceMember tm d")
    case None
    then show ?thesis using Cons.IH[of tm] by simp
  next
    case (Some m)
    let ?tm1 = "tm\<lparr>memberMaps := memberMaps tm @ [m]\<rparr>"
    have "findSourceMember ?tm1 = findSourceMember tm"
      by (rule findSourceMember_srcType) simp
    then show ?thesis using Some Cons.IH[of ?tm1] by simp
  qed
qed

lemma autoConfigure_matched_present:
  assumes "d \<in> set (tiFields (getTypeInfo dt))"
    and "findSourceMember (newTypeMap st dt) d = Some mm"
  shows "mm \<in> set (memberMaps (autoConfigureMembers (newTypeMap st dt)))"
proof -
  have "destType (newTypeMap st dt) = dt" by (simp add: newTypeMap_def)
  then have "memberMaps (autoConfigureMembers (newTypeMap st dt))
        = memberMaps (newTypeMap st dt)
            @ List.map_filter (findSourceMember (newTypeMap st dt)) (tiFields (getTypeInfo dt))"
    by (simp add: autoConfigureMembers_def autoConfigureLoop_appends)
  moreover have "mm \<in> set (List.map_filter (findSourceMember (newTypeMap st dt)) (tiFields (getTypeInfo dt)))"
    using assms by (force simp: List.map_filter_def)
  ultimately show ?thesis by simp
qed

text \<open>
  Claim C2: for every destination field of a type pair being auto-configured, a source
  field of the identical name is chosen whenever there is one (before any flattening
  split); otherwise the destination name is split at capital letters and, when more than
  one part results, matched by the walk through nested source records of the
  specification (\<open>flattenWalkSpec\<close>), the rule recording the full traversal path; when
  a part does not resolve the result is no rule (\<open>None\<close>, not an error), and then no
  member map of the auto-configured \<open>TypeMap\<close> names that destination field. The rule
  found for a destination field is a member map of the auto-configured \<open>TypeMap\<close>:
  \<open>autoConfigureMembers\<close> appends to the member maps, in the order of the destination
  fields, the rule of every field for which one is found, and nothing else.
\<close>

theorem findSourceMember_matching:
  "(case fieldsByName (getTypeInfo (srcType tm)) (name d) of
      Some sf \<Rightarrow>
        findSourceMember tm d =
          Some (emptyMemberMap\<lparr>destField := name d, destFieldIdx := index d,
                  srcField := name sf, srcFieldIdx := index sf\<rparr>)
    | None \<Rightarrow>
        findSourceMember tm d =
          (if length (splitPascalCase (name d)) > 1
           then map_option
                  (\<lambda>path. emptyMemberMap\<lparr>destField := name d, destFieldIdx := index d,
                      srcField := hd (splitPascalCase (name d)), srcFieldIdx := path,
                      useFlattening := True, flattenPath := splitPascalCase (name d)\<rparr>)
                  (flattenWalkSpec (srcType tm) (splitPascalCase (name d)))
           else None))
   \<and> (findSourceMember (newTypeMap st dt) d = None \<longrightarrow>
        (\<forall>mm \<in> set (memberMaps (autoConfigureMembers (newTypeMap st dt))). destField mm \<noteq> name d))
   \<and> (d \<in> set (tiFields (getTypeInfo dt)) \<and> findSourceMember (newTypeMap st dt) d = Some mm \<longrightarrow>
        mm \<in> set (memberMaps (autoConfigureMembers (newTypeMap st dt))))
   \<and> memberMaps (autoConfigureMembers tm)
       = memberMaps tm @ List.map_filter (findSourceMember tm) (tiFields (getTypeInfo (destType tm)))"
proof (intro conjI)
  show "case fieldsByName (getTypeInfo (srcType tm)) (name d) of
      Some sf \<Rightarrow>
        findSourceMember tm d =
          Some (emptyMemberMap\<lparr>destField := name d, destFieldIdx := index d,
                  srcField := name sf, srcFieldIdx := index sf\<rparr>)
    | None \<Rightarrow>
        findSourceMember tm d =
          (if length (splitPascalCase (name d)) > 1
           then map_option
                  (\<lambda>path. emptyMemberMap\<lparr>destField := name d, destFieldIdx := index d,
                      srcField := hd (splitPascalCase (name d)), srcFieldIdx := path,
                      useFlattening := True, flattenPath := splitPascalCase (name d)\<rparr>)
                  (flattenWalkSpec (srcType tm) (splitPascalCase (name d)))
           else None)"
  proof (cases "fieldsByName (getTypeInfo (srcType tm)) (name d)")
    case (Some sf)
    then show ?thesis by (simp add: findSourceMember_def)
  next
    case None
    have "tryFlattenLoop p (srcType tm) [] = flattenWalkSpec (srcType tm) p" for p
      by (simp add: tryFlattenLoop_spec option.map_ident)
    then show ?thesis using None
      by (auto simp: findSourceMember_def tryFlattenMatch_def Let_def
               split: option.splits list.splits)
  qed
next
  show "findSourceMember (newTypeMap st dt) d = None \<longrightarrow>
        (\<forall>mm \<in> set (memberMaps (autoConfigureMembers (newTypeMap st dt))). destField mm \<noteq> name d)"
    using autoConfigure_unmatched_absent by blast
next
  show "d \<in> set (tiFields (getTypeInfo dt)) \<and> findSourceMember (newTypeMap st dt) d = Some mm \<longrightarrow>
        mm \<in> set (memberMaps (autoConfigureMembers (newTypeMap st dt)))"
    using autoConfigure_matched_present by blast
next
  show "memberMaps (autoConfigureMembers tm)
       = memberMaps tm @ List.map_filter (findSourceMember tm) (tiFields (getTypeInfo (destType tm)))"
    by (simp add: autoConfigureMembers_def autoConfigureLoop_appends)
qed

text \<open>
  The theorem at the order example: \<open>Total\<close> is matched by name, \<open>CustomerName\<close> by the
  walk \<open>Customer\<close>, \<open>Name\<close>, and both rules are member maps of the auto-configured
  \<open>TypeMap\<close>; \<open>CustomerAge\<close> is unmatched and absent.
\<close>

theorem findSourceMember_matching_witness:
  "map_option srcFieldIdx (findSourceMember (newTypeMap Order OrderDTO) totalField) = Some [1]
   \<and> fieldsByName (getTypeInfo Order) ''CustomerName'' = None
   \<and> map_option srcFieldIdx (findSourceMember (newTypeMap Order OrderDTO) customerNameField) = Some [0, 0]
   \<and> findSourceMember (newTypeMap Order OrderDTO) customerAgeField = None
   \<and> ''CustomerAge'' \<notin> destField ` set (memberMaps (autoConfigureMembers (newTypeMap Order OrderDTO)))
   \<and> tiFields (getTypeInfo OrderDTO) = [totalField, customerNameField, customerAgeField]
   \<and> (\<exists>mm \<in> set (memberMaps (autoConfigureMembers (newTypeMap Order OrderDTO))).
         findSourceMember (newTypeMap Order OrderDTO) totalField = Some mm \<and> srcFieldIdx mm = [1])
   \<and> (\<exists>mm \<in> set (memberMaps (autoConfigureMembers (newTypeMap Order OrderDTO))).
         findSourceMember (newTypeMap Order OrderDTO) customerNameField = Some mm \<and> srcFieldIdx mm = [0, 0])
   \<and> map (\<lambda>mm. (destField mm, destFieldIdx mm, srcField mm, srcFieldIdx mm, useFlattening mm))
         (memberMaps (autoConfigureMembers (newTypeMap Order OrderDTO)))
       = [(''Total'', [0], ''Total'', [1], False), (''CustomerName'', [1], ''Customer'', [0, 0], True)]"
proof -
  have a: "map_option srcFieldIdx (findSourceMember (newTypeMap Order OrderDTO) totalField) = Some [1]"
    by code_simp
  have b: "fieldsByName (getTypeInfo Order) ''CustomerName'' = None"
    by code_simp
  have c: "map_option srcFieldIdx (findSourceMember (newTypeMap Order OrderDTO) customerNameField) = Some [0, 0]"
    by code_simp
  have d: "findSourceMember (newTypeMap Order OrderDTO) customerAgeField = None"
    by code_simp
  have n: "name customerAgeField = ''CustomerAge''"
    by (simp add: customerAgeField_def)
  have e: "''CustomerAge'' \<notin> destField ` set (memberMaps (autoConfigureMembers (newTypeMap Order OrderDTO)))"
    using findSourceMember_matching[where st = Order and dt = OrderDTO and d = customerAgeField,
            THEN conjunct2, THEN conjunct1] d n
    by auto
  have fs: "tiFields (getTypeInfo OrderDTO) = [totalField, customerNameField, customerAgeField]"
    by code_simp
  from a obtain m1 where m1: "findSourceMember (newTypeMap Order OrderDTO) totalField = Some m1"
      "srcFieldIdx m1 = [1]" by auto
  from c obtain m2 where m2: "findSourceMember (newTypeMap Order OrderDTO) customerNameField = Some m2"
      "srcFieldIdx m2 = [0, 0]" by auto
  have i1: "totalField \<in> set (tiFields (getTypeInfo OrderDTO))" by (simp add: fs)
  have i2: "customerNameField \<in> set (tiFields (getTypeInfo OrderDTO))" by (simp add: fs)
  have p1: "m1 \<in> set (memberMaps (autoConfigureMembers (newTypeMap Order OrderDTO)))"
    using findSourceMember_matching[where st = Order and dt = OrderDTO and d = totalField and mm = m1,
            THEN conjunct2, THEN conjunct2, THEN conjunct1] i1 m1(1)
    by blast
  have p2: "m2 \<in> set (memberMaps (autoConfigureMembers (newTypeMap Order OrderDTO)))"
    using findSourceMember_matching[where st = Order and dt = OrderDTO and d = customerNameField and mm = m2,
            THEN conjunct2, THEN conjunct2, THEN conjunct1] i2 m2(1)
    by blast
  have q1: "\<exists>mm \<in> set (memberMaps (autoConfigureMembers (newTypeMap Order OrderDTO))).
         findSourceMember (newTypeMap Order OrderDTO) totalField = Some mm \<and> srcFieldIdx mm = [1]"
    using p1 m1 by blast
  have q2: "\<exists>mm \<in> set (memberMaps (autoConfigureMembers (newTypeMap Order OrderDTO))).
         findSourceMember (newTypeMap Order OrderDTO) customerNameField = Some mm \<and> srcFieldIdx mm = [0, 0]"
    using p2 m2 by blast
  have l: "map (\<lambda>mm. (destField mm, destFieldIdx mm, srcField mm, srcFieldIdx mm, useFlattening mm))
         (memberMaps (autoConfigureMembers (newTypeMap Order OrderDTO)))
       = [(''Total'', [0], ''Total'', [1], False), (''CustomerName'', [1], ''Customer'', [0, 0], True)]"
    by code_simp
  from a b c d e fs q1 q2 l show ?thesis by (intro conjI)
qed

section \<open>Claims about the optimization tiers\<close>

text \<open>
  Where the tiers do agree: when every compiled member is marked \<open>directAssign\<close> (the
  source and destination field have one and the same primitive type), the fields are
  exported, there is no custom logic and no converter is registered for a type to
  itself, the specialized closure and the loop of \<open>mapMemberUnsafe\<close> give what the
  standard member loop gives, on every typed source that is not read-only and every
  typed destination.
\<close>

lemma primitive_type_basic:
  "isPrimitiveKind (Kind t) \<Longrightarrow> \<exists>k nm. t = TBasic k nm \<and> isPrimitiveKind k"
  by (cases t) (auto simp: isPrimitiveKind_def)

lemma typeOf_basic_value:
  "typeOf v = TBasic k nm \<Longrightarrow> properValue v \<Longrightarrow> \<exists>l. v = VBasic k nm l"
  by (cases v) (auto simp: properValue_def split: gtype.splits)

lemma mapMember_path:
  assumes "\<not> ignore mm" "condition mm = None" "resolver mm = None" "converter mm = None"
    "srcFieldIdx mm \<noteq> []"
    "fieldByIndex dest (destFieldIdx mm) = Some fld"
    "canSetByIndex (structFields (typeOf dest)) (destFieldIdx mm)"
    "getNestedField src sa (srcFieldIdx mm) = (v, a)" "IsValid v"
  shows "mapMember av cfg src sa dest mm
           = inDest (updateByIndex dest (destFieldIdx mm)) (av cfg v a fld)"
  using assms by (simp add: mapMember_def)

lemma assignValue_same_basic:
  assumes "isPrimitiveKind k" and "typeOf d = TBasic k nm"
    and "converters cfg (TBasic k nm, TBasic k nm) = None" and pd: "properValue d"
    and nro: "\<not> readOnly a"
  shows "assignValue (Suc n) cfg (VBasic k nm l) a d = Ok cfg (VBasic k nm l)"
proof -
  from assms(1) have kp: "k \<noteq> KPtr" by (auto simp: isPrimitiveKind_def)
  from assms(2) obtain l' where d: "d = VBasic k nm l'" using typeOf_basic_value[OF assms(2) pd] by blast
  show ?thesis
    using kp assms(3) nro
    by (simp add: d assignValueBody_def IsValid_def AssignableTo_def setFrom_def setOutcome_def setValue_def)
qed

lemma mapMember_direct:
  assumes r: "directRule st dt mm" and ni: "\<not> ignore mm"
    and s: "typedStruct st src" and d: "typedStruct dt dest"
    and nc: "\<forall>t. converters cfg (t, t) = None"
    and nro: "\<not> readOnly sa"
  shows "\<exists>dest' sfld dfld.
           typedStruct dt dest'
           \<and> mapMember (assignValue (Suc n)) cfg src sa dest mm = Ok cfg dest'
           \<and> \<not> readOnly (fieldFlags sa (typeOf src) (srcFieldIdx mm ! 0))
           \<and> canSetByIndex (structFields (typeOf dest)) [destFieldIdx mm ! 0]
           \<and> fieldOf dest (destFieldIdx mm ! 0) = Some dfld
           \<and> fieldOf src (srcFieldIdx mm ! 0) = Some sfld
           \<and> setValue dfld sfld = Some sfld
           \<and> setFieldOf dest (destFieldIdx mm ! 0) sfld = Some dest'
           \<and> unsafeCopyField cfg src dest (srcFieldIdx mm ! 0) (destFieldIdx mm ! 0) = Ok cfg dest'"
proof -
  from r obtain i j where idx: "srcFieldIdx mm = [i]" "destFieldIdx mm = [j]"
    and b: "i < length (structFields st)" "j < length (structFields dt)"
    and ty: "ftype (structFields st ! i) = ftype (structFields dt ! j)"
    and pk: "isPrimitiveKind (Kind (ftype (structFields st ! i)))"
    and exs: "IsExported (structFields st ! i)"
    and ex: "IsExported (structFields dt ! j)"
    and cl: "condition mm = None" "resolver mm = None" "converter mm = None"
    by (auto simp: directRule_def split: list.splits)
  have fro: "\<not> readOnly (fieldFlags sa st i)"
    using nro exs b(1) by (simp add: readOnly_def fieldFlags_def Let_def)
  from s obtain svals where sv: "src = VStruct st svals"
      "map typeOf svals = map ftype (structFields st)" "list_all properValue svals"
    by (auto simp: typedStruct_def split: gval.splits)
  from d obtain dvals where dv: "dest = VStruct dt dvals"
      "map typeOf dvals = map ftype (structFields dt)" "list_all properValue dvals"
    by (auto simp: typedStruct_def split: gval.splits)
  from sv(2) have ls: "length svals = length (structFields st)" by (metis length_map)
  from dv(2) have ld: "length dvals = length (structFields dt)" by (metis length_map)
  have ts: "typeOf (svals ! i) = ftype (structFields st ! i)"
    using sv(2) b(1) ls by (metis nth_map)
  have td: "typeOf (dvals ! j) = ftype (structFields dt ! j)"
    using dv(2) b(2) ld by (metis nth_map)
  from primitive_type_basic[OF pk] obtain k nm where
    kn: "ftype (structFields st ! i) = TBasic k nm" "isPrimitiveKind k" by blast
  have ps: "properValue (svals ! i)" using sv(3) b(1) ls by (simp add: list_all_length)
  have pd: "properValue (dvals ! j)" using dv(3) b(2) ld by (simp add: list_all_length)
  from typeOf_basic_value[OF _ ps] ts kn(1) obtain l where sl: "svals ! i = VBasic k nm l" by metis
  have tdk: "typeOf (dvals ! j) = TBasic k nm" using td ty kn(1) by simp
  have av: "assignValue (Suc n) cfg (VBasic k nm l) (fieldFlags sa st i) (dvals ! j) = Ok cfg (VBasic k nm l)"
    using assignValue_same_basic[OF kn(2) tdk _ pd fro] nc by blast
  have fb: "fieldByIndex dest (destFieldIdx mm) = Some (dvals ! j)"
    using b(2) ld by (simp add: dv(1) idx)
  have cs: "canSetByIndex (structFields (typeOf dest)) (destFieldIdx mm)"
    using b(2) ex by (simp add: dv(1) idx Let_def)
  have gn: "getNestedField src sa (srcFieldIdx mm) = (VBasic k nm l, fieldFlags sa st i)"
    using b(1) ls sl by (simp add: getNestedField_def sv(1) idx IsValid_def)
  have up: "updateByIndex dest (destFieldIdx mm) (VBasic k nm l)
              = Some (VStruct dt (dvals[j := VBasic k nm l]))"
    using b(2) ld by (simp add: dv(1) idx)
  have ne: "srcFieldIdx mm \<noteq> []" by (simp add: idx)
  have iv: "IsValid (VBasic k nm l)" by (simp add: IsValid_def)
  let ?dest' = "VStruct dt (dvals[j := svals ! i])"
  have m: "mapMember (assignValue (Suc n)) cfg src sa dest mm = Ok cfg ?dest'"
    by (subst mapMember_path[OF ni cl(1) cl(2) cl(3) ne fb cs gn iv]) (simp only: av inDest.simps up sl option.case)
  have teq: "typeOf (svals ! i) = typeOf (dvals ! j)" using ts td ty by simp
  have t': "typedStruct dt ?dest'"
  proof -
    have "map typeOf (dvals[j := svals ! i]) = map typeOf dvals"
      using teq b(2) ld by (simp add: map_update list_update_same_conv)
    moreover have "list_all properValue (dvals[j := svals ! i])"
      using dv(3) ps by (auto simp: list_all_iff dest: set_update_subset_insert[THEN subsetD])
    ultimately show ?thesis using dv(2) by (simp add: typedStruct_def)
  qed
  have f1: "fieldOf dest (destFieldIdx mm ! 0) = Some (dvals ! j)"
    using b(2) ld by (simp add: dv(1) idx)
  have f2: "fieldOf src (srcFieldIdx mm ! 0) = Some (svals ! i)"
    using b(1) ls by (simp add: sv(1) idx)
  have f3: "setValue (dvals ! j) (svals ! i) = Some (svals ! i)"
    using teq tdk by (simp add: setValue_def sl IsValid_def AssignableTo_def)
  have f4: "setFieldOf dest (destFieldIdx mm ! 0) (svals ! i) = Some ?dest'"
    using b(2) ld by (simp add: dv(1) idx)
  have f5: "unsafeCopyField cfg src dest (srcFieldIdx mm ! 0) (destFieldIdx mm ! 0) = Ok cfg ?dest'"
    by (simp add: unsafeCopyField_def f2 f4)
  have f0: "\<not> readOnly (fieldFlags sa (typeOf src) (srcFieldIdx mm ! 0))"
    using fro by (simp add: sv(1) idx)
  have f6: "canSetByIndex (structFields (typeOf dest)) [destFieldIdx mm ! 0]"
    using cs by (simp add: idx)
  from t' m f0 f1 f2 f3 f4 f5 f6 show ?thesis by blast
qed

lemma canSetByIndex_single:
  "canSetByIndex fs [x] \<longleftrightarrow> x < length fs \<and> IsExported (fs ! x)"
  by (auto simp: Let_def)

lemma specializedLoop_standard:
  assumes "\<forall>omm \<in> set omms. mmRef omm < length mms \<and> directRule st dt (mms ! mmRef omm)"
    and "typedStruct st src" and "typedStruct dt dest"
    and "\<forall>t. converters cfg (t, t) = None"
    and "\<not> readOnly sa"
  shows "specializedLoop omms mms cfg src sa dest
           = mapMembers (assignValue (Suc n)) cfg src sa dest (map (\<lambda>omm. mms ! mmRef omm) omms)"
  using assms
proof (induction omms arbitrary: dest)
  case Nil
  show ?case by simp
next
  case (Cons omm rest)
  let ?mm = "mms ! mmRef omm"
  from Cons.prems(1) have lt: "mmRef omm < length mms" and dr: "directRule st dt ?mm"
    and restp: "\<forall>o' \<in> set rest. mmRef o' < length mms \<and> directRule st dt (mms ! mmRef o')"
    by simp_all
  have lk: "lookupRef mms (mmRef omm) = Some ?mm" using lt by (simp add: lookupRef_def)
  show ?case
  proof (cases "ignore ?mm")
    case True
    have "mapMember (assignValue (Suc n)) cfg src sa dest ?mm = Ok cfg dest"
      using True by (simp add: mapMember_def)
    then show ?thesis
      using True lk Cons.IH[OF restp Cons.prems(2) Cons.prems(3) Cons.prems(4) Cons.prems(5)]
      by (simp del: assignValue.simps)
  next
    case False
    from mapMember_direct[OF dr False Cons.prems(2) Cons.prems(3) Cons.prems(4) Cons.prems(5), of n]
    obtain dest' sfld dfld where
      h: "typedStruct dt dest'"
         "mapMember (assignValue (Suc n)) cfg src sa dest ?mm = Ok cfg dest'"
         "fieldOf dest (destFieldIdx ?mm ! 0) = Some dfld"
         "fieldOf src (srcFieldIdx ?mm ! 0) = Some sfld"
         "setValue dfld sfld = Some sfld"
         "setFieldOf dest (destFieldIdx ?mm ! 0) sfld = Some dest'"
         "\<not> readOnly (fieldFlags sa (typeOf src) (srcFieldIdx ?mm ! 0))"
         "canSetByIndex (structFields (typeOf dest)) [destFieldIdx ?mm ! 0]"
      by blast
    from dr have ne: "destFieldIdx ?mm \<noteq> []" "srcFieldIdx ?mm \<noteq> []"
      by (auto simp: directRule_def split: list.splits)
    have "specializedLoop (omm # rest) mms cfg src sa dest = specializedLoop rest mms cfg src sa dest'"
      using lk False ne h(3-7) h(8)[unfolded canSetByIndex_single]
      by (simp add: canSetByIndex_single del: canSetByIndex.simps)
    also have "\<dots> = mapMembers (assignValue (Suc n)) cfg src sa dest' (map (\<lambda>omm. mms ! mmRef omm) rest)"
      by (rule Cons.IH[OF restp Cons.prems(2) h(1) Cons.prems(4) Cons.prems(5)])
    finally show ?thesis using h(2) by (simp del: assignValue.simps)
  qed
qed

lemma mapMembersUnsafe_standard:
  assumes "\<forall>omm \<in> set omms. mmRef omm < length mms \<and> directRule st dt (mms ! mmRef omm)
              \<and> srcOffset omm = srcFieldIdx (mms ! mmRef omm) ! 0
              \<and> destOffset omm = destFieldIdx (mms ! mmRef omm) ! 0"
    and "typedStruct st src" and "typedStruct dt dest"
    and "\<forall>t. converters cfg (t, t) = None"
    and "\<not> readOnly sa"
  shows "mapMembersUnsafe (assignValue (Suc n)) cfg src sa dest mms omms
           = mapMembers (assignValue (Suc n)) cfg src sa dest (map (\<lambda>omm. mms ! mmRef omm) omms)"
  using assms
proof (induction omms arbitrary: dest)
  case Nil
  show ?case by simp
next
  case (Cons omm rest)
  let ?mm = "mms ! mmRef omm"
  from Cons.prems(1) have lt: "mmRef omm < length mms" and dr: "directRule st dt ?mm"
    and off: "srcOffset omm = srcFieldIdx ?mm ! 0" "destOffset omm = destFieldIdx ?mm ! 0"
    and restp: "\<forall>o' \<in> set rest. mmRef o' < length mms \<and> directRule st dt (mms ! mmRef o')
              \<and> srcOffset o' = srcFieldIdx (mms ! mmRef o') ! 0
              \<and> destOffset o' = destFieldIdx (mms ! mmRef o') ! 0"
    by simp_all
  have lk: "lookupRef mms (mmRef omm) = Some ?mm" using lt by (simp add: lookupRef_def)
  show ?case
  proof (cases "ignore ?mm")
    case True
    have "mapMember (assignValue (Suc n)) cfg src sa dest ?mm = Ok cfg dest"
      using True by (simp add: mapMember_def)
    moreover have "mapMemberUnsafe (assignValue (Suc n)) cfg src sa dest mms omm = Ok cfg dest"
      using True lk by (simp add: mapMemberUnsafe_def)
    ultimately show ?thesis
      using Cons.IH[OF restp Cons.prems(2) Cons.prems(3) Cons.prems(4) Cons.prems(5)]
      by (simp del: assignValue.simps)
  next
    case False
    from mapMember_direct[OF dr False Cons.prems(2) Cons.prems(3) Cons.prems(4) Cons.prems(5), of n]
    obtain dest' where
      h: "typedStruct dt dest'"
         "mapMember (assignValue (Suc n)) cfg src sa dest ?mm = Ok cfg dest'"
         "unsafeCopyField cfg src dest (srcFieldIdx ?mm ! 0) (destFieldIdx ?mm ! 0) = Ok cfg dest'"
      by blast
    have "mapMemberUnsafe (assignValue (Suc n)) cfg src sa dest mms omm = Ok cfg dest'"
      using lk False h(2) h(3) off by (simp add: mapMemberUnsafe_def del: assignValue.simps)
    then show ?thesis
      using h(2) Cons.IH[OF restp Cons.prems(2) h(1) Cons.prems(4) Cons.prems(5)]
      by (simp del: assignValue.simps)
  qed
qed

lemma compileMember_shape:
  assumes "compileMember tm i mm = Some (omm, prim, custom)"
  shows "mmRef omm = i
     \<and> (\<not> custom \<longrightarrow> resolver mm = None \<and> converter mm = None \<and> condition mm = None)
     \<and> (directAssign omm \<longrightarrow>
          compiledDirect tm mm omm)"
proof (cases "length (srcFieldIdx mm) = 1 \<and> length (destFieldIdx mm) = 1")
  case False
  with assms show ?thesis by (auto simp: compileMember_def Let_def)
next
  case True
  then obtain a b where ab: "srcFieldIdx mm = [a]" "destFieldIdx mm = [b]"
    by (auto simp: length_Suc_conv)
  from assms ab show ?thesis
    by (auto simp: compileMember_def compiledDirect_def Let_def typeField_def
             split: option.splits if_splits)
qed

lemma compileMembers_shape:
  "compileMembers tm i mms opt0 = Some opt' \<Longrightarrow>
     \<exists>new. optimizedMembers opt' = optimizedMembers opt0 @ new \<and> length new = length mms
        \<and> (\<forall>p < length mms. mmRef (new ! p) = i + p
             \<and> (directAssign (new ! p) \<longrightarrow>
                  compiledDirect tm (mms ! p) (new ! p)))
        \<and> (\<not> hasCustomLogic opt' \<longrightarrow> \<not> hasCustomLogic opt0
              \<and> (\<forall>mm \<in> set mms. resolver mm = None \<and> converter mm = None \<and> condition mm = None))"
proof (induction mms arbitrary: i opt0)
  case Nil
  then show ?case by simp
next
  case (Cons mm rest)
  from Cons.prems obtain omm prim custom where
    cm: "compileMember tm i mm = Some (omm, prim, custom)"
    by (auto split: option.splits)
  let ?opt1 = "opt0\<lparr>optimizedMembers := optimizedMembers opt0 @ [omm],
                 allPrimitive := (allPrimitive opt0 \<and> prim),
                 hasCustomLogic := (hasCustomLogic opt0 \<or> custom)\<rparr>"
  from Cons.prems cm have rec: "compileMembers tm (Suc i) rest ?opt1 = Some opt'" by simp
  from Cons.IH[OF rec] obtain new where
    n1: "optimizedMembers opt' = optimizedMembers ?opt1 @ new" and n2: "length new = length rest"
    and n3: "\<forall>p < length rest. mmRef (new ! p) = Suc i + p
             \<and> (directAssign (new ! p) \<longrightarrow>
                  compiledDirect tm (rest ! p) (new ! p))"
    and n4: "\<not> hasCustomLogic opt' \<longrightarrow> \<not> hasCustomLogic ?opt1
              \<and> (\<forall>m \<in> set rest. resolver m = None \<and> converter m = None \<and> condition m = None)"
    by blast
  note sh = compileMember_shape[OF cm]
  have a1: "optimizedMembers opt' = optimizedMembers opt0 @ (omm # new)" using n1 by simp
  have a2: "length (omm # new) = length (mm # rest)" using n2 by simp
  have a3: "\<forall>p < length (mm # rest). mmRef ((omm # new) ! p) = i + p
             \<and> (directAssign ((omm # new) ! p) \<longrightarrow>
                  compiledDirect tm ((mm # rest) ! p) ((omm # new) ! p))"
  proof (intro allI impI)
    fix p assume "p < length (mm # rest)"
    then show "mmRef ((omm # new) ! p) = i + p
             \<and> (directAssign ((omm # new) ! p) \<longrightarrow>
                  compiledDirect tm ((mm # rest) ! p) ((omm # new) ! p))"
    proof (cases p)
      case 0
      with sh show ?thesis by simp
    next
      case (Suc q)
      with \<open>p < length (mm # rest)\<close> have "q < length rest" by simp
      with n3 Suc show ?thesis by simp
    qed
  qed
  have a4: "\<not> hasCustomLogic opt' \<longrightarrow> \<not> hasCustomLogic opt0
              \<and> (\<forall>m \<in> set (mm # rest). resolver m = None \<and> converter m = None \<and> condition m = None)"
    using n4 sh by auto
  from a1 a2 a3 a4 show ?case by blast
qed

lemma compileOptimizedTypeMap_shape:
  assumes "compileOptimizedTypeMap r tm level = Some opt"
  shows "length (optimizedMembers opt) = length (memberMaps tm)
     \<and> (\<forall>p < length (memberMaps tm). mmRef (optimizedMembers opt ! p) = p
           \<and> (directAssign (optimizedMembers opt ! p) \<longrightarrow>
                compiledDirect tm (memberMaps tm ! p) (optimizedMembers opt ! p)))
     \<and> (\<not> hasCustomLogic opt \<longrightarrow>
           (\<forall>mm \<in> set (memberMaps tm). resolver mm = None \<and> converter mm = None \<and> condition mm = None))
     \<and> (\<forall>members. specializedFn opt = Some members \<longrightarrow> members = optimizedMembers opt)"
proof -
  let ?opt0 = "\<lparr>tmRef = r, optimizedMembers = [], specializedFn = None, allPrimitive = True,
                  hasCustomLogic = (customMapper tm \<noteq> None \<or> length (beforeMap tm) > 0
                                     \<or> length (afterMap tm) > 0),
                  compiled = False\<rparr>"
  from assms obtain opt' where
    c: "compileMembers tm 0 (memberMaps tm) ?opt0 = Some opt'"
    and o: "opt = (if level \<ge> OptimizationSpecialized \<and> allPrimitive opt' \<and> \<not> hasCustomLogic opt'
                    then opt'\<lparr>specializedFn := Some (optimizedMembers opt')\<rparr> else opt')
                   \<lparr>compiled := True\<rparr>"
    by (auto simp: compileOptimizedTypeMap_def Let_def split: option.splits)
  have sf: "specializedFn opt' = None"
    using c
  proof -
    have "compileMembers tm i mms o0 = Some o1 \<Longrightarrow> specializedFn o1 = specializedFn o0" for i mms o0 o1
      by (induction mms arbitrary: i o0) (auto split: option.splits)
    from this[OF c] show ?thesis by simp
  qed
  from compileMembers_shape[OF c] obtain new where
    n: "optimizedMembers opt' = new" "length new = length (memberMaps tm)"
       "\<forall>p < length (memberMaps tm). mmRef (new ! p) = 0 + p
             \<and> (directAssign (new ! p) \<longrightarrow>
                  compiledDirect tm (memberMaps tm ! p) (new ! p))"
       "\<not> hasCustomLogic opt' \<longrightarrow>
              (\<forall>mm \<in> set (memberMaps tm). resolver mm = None \<and> converter mm = None \<and> condition mm = None)"
    by auto
  have m: "optimizedMembers opt = new" "hasCustomLogic opt = hasCustomLogic opt'"
    using o n(1) by (simp_all split: if_splits)
  have s: "\<forall>members. specializedFn opt = Some members \<longrightarrow> members = optimizedMembers opt"
    using o sf by (auto split: if_splits)
  from n m s show ?thesis by simp
qed

lemma tiers_agree_on_identical_types:
  assumes c: "compileOptimizedTypeMap r tm level = Some opt"
    and nocustom: "\<not> hasCustomLogic opt"
    and direct: "\<forall>omm \<in> set (optimizedMembers opt). directAssign omm"
    and exported: "\<forall>mm \<in> set (memberMaps tm). \<forall>j. destFieldIdx mm = [j] \<longrightarrow>
                      IsExported (structFields (destType tm) ! j)"
    and exportedSrc: "\<forall>mm \<in> set (memberMaps tm). \<forall>i. srcFieldIdx mm = [i] \<longrightarrow>
                      IsExported (structFields (srcType tm) ! i)"
    and s: "typedStruct (srcType tm) src" and d: "typedStruct (destType tm) dest"
    and nc: "\<forall>t. converters cfg (t, t) = None"
    and nro: "\<not> readOnly sa"
  shows "specializedLoop (optimizedMembers opt) (memberMaps tm) cfg src sa dest
           = mapMembers (assignValue (Suc n)) cfg src sa dest (memberMaps tm)
       \<and> mapMembersUnsafe (assignValue (Suc n)) cfg src sa dest (memberMaps tm) (optimizedMembers opt)
           = mapMembers (assignValue (Suc n)) cfg src sa dest (memberMaps tm)"
proof -
  let ?mms = "memberMaps tm" and ?omms = "optimizedMembers opt"
  note sh = compileOptimizedTypeMap_shape[OF c]
  from sh have len: "length ?omms = length ?mms" by blast
  have each: "mmRef (?omms ! p) = p \<and> directRule (srcType tm) (destType tm) (?mms ! p)
              \<and> srcOffset (?omms ! p) = srcFieldIdx (?mms ! p) ! 0
              \<and> destOffset (?omms ! p) = destFieldIdx (?mms ! p) ! 0" if p: "p < length ?mms" for p
  proof -
    from sh p have r: "mmRef (?omms ! p) = p" by blast
    from p len direct have da: "directAssign (?omms ! p)" by simp
    with sh p have "compiledDirect tm (?mms ! p) (?omms ! p)" by blast
    then obtain a b where ab: "srcFieldIdx (?mms ! p) = [a]" "destFieldIdx (?mms ! p) = [b]"
       "a < length (structFields (srcType tm))" "b < length (structFields (destType tm))"
       "ftype (structFields (srcType tm) ! a) = ftype (structFields (destType tm) ! b)"
       "isPrimitiveKind (Kind (ftype (structFields (srcType tm) ! a)))"
       "srcOffset (?omms ! p) = a" "destOffset (?omms ! p) = b"
      unfolding compiledDirect_def by blast
    from p have mem: "?mms ! p \<in> set ?mms" by simp
    from sh nocustom mem have cl: "resolver (?mms ! p) = None" "converter (?mms ! p) = None"
        "condition (?mms ! p) = None" by blast+
    from exported mem ab(2) have ex: "IsExported (structFields (destType tm) ! b)" by blast
    from exportedSrc mem ab(1) have exs: "IsExported (structFields (srcType tm) ! a)" by blast
    have "directRule (srcType tm) (destType tm) (?mms ! p)"
      using ab cl ex exs by (simp add: directRule_def)
    with r ab show ?thesis by simp
  qed
  have all: "\<forall>omm \<in> set ?omms. mmRef omm < length ?mms
              \<and> directRule (srcType tm) (destType tm) (?mms ! mmRef omm)
              \<and> srcOffset omm = srcFieldIdx (?mms ! mmRef omm) ! 0
              \<and> destOffset omm = destFieldIdx (?mms ! mmRef omm) ! 0"
  proof
    fix omm assume "omm \<in> set ?omms"
    then obtain p where p: "p < length ?omms" "omm = ?omms ! p" by (auto simp: in_set_conv_nth)
    with len have pl: "p < length ?mms" by simp
    from each[OF pl] p(2) pl show "mmRef omm < length ?mms
              \<and> directRule (srcType tm) (destType tm) (?mms ! mmRef omm)
              \<and> srcOffset omm = srcFieldIdx (?mms ! mmRef omm) ! 0
              \<and> destOffset omm = destFieldIdx (?mms ! mmRef omm) ! 0" by simp
  qed
  have mp: "map (\<lambda>omm. ?mms ! mmRef omm) ?omms = ?mms"
  proof (rule nth_equalityI)
    show "length (map (\<lambda>omm. ?mms ! mmRef omm) ?omms) = length ?mms" using len by simp
  next
    fix p assume "p < length (map (\<lambda>omm. ?mms ! mmRef omm) ?omms)"
    then have pl: "p < length ?mms" "p < length ?omms" using len by simp_all
    from each[OF pl(1)] pl(2) show "map (\<lambda>omm. ?mms ! mmRef omm) ?omms ! p = ?mms ! p" by simp
  qed
  have all1: "\<forall>omm \<in> set ?omms. mmRef omm < length ?mms
              \<and> directRule (srcType tm) (destType tm) (?mms ! mmRef omm)"
    using all by blast
  from specializedLoop_standard[OF all1 s d nc nro, of n]
       mapMembersUnsafe_standard[OF all s d nc nro, of n] mp
  show ?thesis by simp
qed

lemma runHooks_none: "runHooks [] src sa = Ok"
  by (intro ext) simp

lemma optimized_equals_standard_on_identical_types:
  assumes c: "compileOptimizedTypeMap r tm level = Some opt"
    and nocustom: "\<not> hasCustomLogic opt"
    and direct: "\<forall>omm \<in> set (optimizedMembers opt). directAssign omm"
    and exported: "\<forall>mm \<in> set (memberMaps tm). \<forall>j. destFieldIdx mm = [j] \<longrightarrow>
                      IsExported (structFields (destType tm) ! j)"
    and exportedSrc: "\<forall>mm \<in> set (memberMaps tm). \<forall>i. srcFieldIdx mm = [i] \<longrightarrow>
                      IsExported (structFields (srcType tm) ! i)"
    and s: "typedStruct (srcType tm) src" and d: "typedStruct (destType tm) dest"
    and nc: "\<forall>t. converters cfg (t, t) = None"
    and nro: "\<not> readOnly sa"
    and nohooks: "customMapper tm = None" "beforeMap tm = []" "afterMap tm = []"
  shows "mapStructOptimized (assignValue (Suc n)) cfg src sa dest opt tm
           = mapStructStandard (assignValue (Suc n)) cfg src sa dest tm"
proof -
  note ag = tiers_agree_on_identical_types[OF c nocustom direct exported exportedSrc s d nc nro, of n]
  from compileOptimizedTypeMap_shape[OF c]
  have sp: "\<forall>members. specializedFn opt = Some members \<longrightarrow> members = optimizedMembers opt"
    by blast
  let ?std = "mapMembers (assignValue (Suc n)) cfg src sa dest (memberMaps tm)"
  have body: "(case specializedFn opt of
                 Some members \<Rightarrow> specializedLoop members (memberMaps tm) cfg src sa dest
               | None \<Rightarrow>
                   if useUnsafe cfg
                   then mapMembersUnsafe (assignValue (Suc n)) cfg src sa dest (memberMaps tm) (optimizedMembers opt)
                   else ?std) = ?std"
  proof (cases "specializedFn opt")
    case None
    then show ?thesis using ag by simp
  next
    case (Some members)
    with sp have "members = optimizedMembers opt" by blast
    with Some ag show ?thesis by simp
  qed
  have "mapStructOptimized (assignValue (Suc n)) cfg src sa dest opt tm
          = andThen (case specializedFn opt of
                 Some members \<Rightarrow> specializedLoop members (memberMaps tm) cfg src sa dest
               | None \<Rightarrow>
                   if useUnsafe cfg
                   then mapMembersUnsafe (assignValue (Suc n)) cfg src sa dest (memberMaps tm) (optimizedMembers opt)
                   else ?std) (\<lambda>c2 d2. Ok c2 d2)"
    using nohooks by (simp add: mapStructOptimized_def del: assignValue.simps cong: option.case_cong)
  also have "\<dots> = andThen ?std (\<lambda>c2 d2. Ok c2 d2)" by (simp only: body)
  also have "\<dots> = mapStructStandard (assignValue (Suc n)) cfg src sa dest tm"
    using nohooks by (simp add: mapStructStandard_def runHooks_none del: assignValue.simps)
  finally show ?thesis .
qed

text \<open>The lemma at the basic pair, whose three fields have the same types on both sides.\<close>

lemma optimized_equals_standard_example:
  "mapStructOptimized (assignValue 1) New john plainValue (zeroValue DestBasic) basicOptMap basicTypeMap
     = mapStructStandard (assignValue 1) New john plainValue (zeroValue DestBasic) basicTypeMap
   \<and> destOf (mapStructStandard (assignValue 1) New john plainValue (zeroValue DestBasic) basicTypeMap)
     = Some (VStruct DestBasic [str ''John'', num 30, str ''john@example.com''])"
proof -
  have c: "compileOptimizedTypeMap 0 basicTypeMap OptimizationSpecialized = Some basicOptMap"
    by code_simp
  have nocustom: "\<not> hasCustomLogic basicOptMap" by code_simp
  have direct: "\<forall>omm \<in> set (optimizedMembers basicOptMap). directAssign omm" by code_simp
  have idx: "map destFieldIdx (memberMaps basicTypeMap) = [[0], [1], [2]]" by code_simp
  have st: "srcType basicTypeMap = SourceBasic" "destType basicTypeMap = DestBasic" by code_simp+
  have ex3: "IsExported (structFields DestBasic ! 0)" "IsExported (structFields DestBasic ! 1)"
            "IsExported (structFields DestBasic ! 2)" by code_simp+
  have exported: "\<forall>mm \<in> set (memberMaps basicTypeMap). \<forall>j. destFieldIdx mm = [j] \<longrightarrow>
                      IsExported (structFields (destType basicTypeMap) ! j)"
  proof (intro ballI allI impI)
    fix mm j assume "mm \<in> set (memberMaps basicTypeMap)" and j: "destFieldIdx mm = [j]"
    then have "destFieldIdx mm \<in> set (map destFieldIdx (memberMaps basicTypeMap))"
      by (metis imageI set_map)
    with idx j have "j = 0 \<or> j = 1 \<or> j = 2" by auto
    with ex3 st show "IsExported (structFields (destType basicTypeMap) ! j)" by auto
  qed
  have sidx: "map srcFieldIdx (memberMaps basicTypeMap) = [[0], [1], [2]]" by code_simp
  have exs3: "IsExported (structFields SourceBasic ! 0)" "IsExported (structFields SourceBasic ! 1)"
            "IsExported (structFields SourceBasic ! 2)" by code_simp+
  have exportedSrc: "\<forall>mm \<in> set (memberMaps basicTypeMap). \<forall>i. srcFieldIdx mm = [i] \<longrightarrow>
                      IsExported (structFields (srcType basicTypeMap) ! i)"
  proof (intro ballI allI impI)
    fix mm i assume "mm \<in> set (memberMaps basicTypeMap)" and i: "srcFieldIdx mm = [i]"
    then have "srcFieldIdx mm \<in> set (map srcFieldIdx (memberMaps basicTypeMap))"
      by (metis imageI set_map)
    with sidx i have "i = 0 \<or> i = 1 \<or> i = 2" by auto
    with exs3 st show "IsExported (structFields (srcType basicTypeMap) ! i)" by auto
  qed
  have nro: "\<not> readOnly plainValue" by (simp add: readOnly_def plainValue_def)
  have s: "typedStruct (srcType basicTypeMap) john" by code_simp
  have d: "typedStruct (destType basicTypeMap) (zeroValue DestBasic)" by code_simp
  have nc: "\<forall>t. converters New (t, t) = None" by (simp add: New_def)
  have h1: "Option.is_none (customMapper basicTypeMap)" by code_simp
  have h2: "length (beforeMap basicTypeMap) = 0" "length (afterMap basicTypeMap) = 0" by code_simp+
  from h1 have cm: "customMapper basicTypeMap = None" by (simp add: Option.is_none_def)
  from h2 have bm: "beforeMap basicTypeMap = []" and am: "afterMap basicTypeMap = []"
    by simp_all
  have e: "destOf (mapStructStandard (assignValue 1) New john plainValue (zeroValue DestBasic) basicTypeMap)
     = Some (VStruct DestBasic [str ''John'', num 30, str ''john@example.com''])"
    by code_simp
  from optimized_equals_standard_on_identical_types[OF c nocustom direct exported exportedSrc s d nc nro cm bm am,
        of 0] e
  show ?thesis by simp
qed

text \<open>
  Claim C1 says that for an all-primitive record pair registered with \<open>CreateMap\<close> and no
  custom logic, tier None, tier Unsafe and tier Specialized give the same destination.
  The code at a failing input: \<open>Src32\<close> and \<open>Dst64\<close> have one field \<open>Age\<close>, of type
  \<^verbatim>\<open>int32\<close> in the source and \<^verbatim>\<open>int64\<close> in the destination. The compiled map counts the
  pair as all-primitive; the standard path and the Unsafe tier convert the value, the
  specialized closure calls \<^verbatim>\<open>Set\<close> on the differing types and panics.
\<close>

theorem specialized_panics_where_standard_converts:
  "map_option allPrimitive (optimizedMaps (mapperFor [WithSpecializedMappers] Src32 Dst64) (Src32, Dst64)) = Some True
   \<and> destOf (Map 3 (mapperFor [] Src32 Dst64) Dst64 age7) = Some (VStruct Dst64 [VBasic KInt64 ''int64'' (LInt 7)])
   \<and> errOf (Map 3 (mapperFor [] Src32 Dst64) Dst64 age7) = None
   \<and> destOf (Map 3 (mapperFor [WithUnsafeOptimizations] Src32 Dst64) Dst64 age7) = Some (VStruct Dst64 [VBasic KInt64 ''int64'' (LInt 7)])
   \<and> panics (Map 3 (mapperFor [WithSpecializedMappers] Src32 Dst64) Dst64 age7)"
  by code_simp

text \<open>
  Both bodies test the converter registry before anything else, for the type of the
  dereferenced source and the type of the destination.
\<close>

lemma mapValueCore_converter_first:
  "converters cfg (typeOf src, typeOf dest) = Some conv \<Longrightarrow>
   mapValueCore mv av cfg src sa dest = applyConverter conv cfg src sa dest"
  by (simp add: mapValueCore_def)

lemma assignValue_converter_first:
  "derefValue src0 sa0 = (src, sa) \<Longrightarrow> IsValid src \<Longrightarrow> Kind (typeOf dest) \<noteq> KPtr \<Longrightarrow>
   converters cfg (typeOf src, typeOf dest) = Some conv \<Longrightarrow>
   assignValue (Suc n) cfg src0 sa0 dest = applyConverter conv cfg src sa dest"
  by (simp add: assignValueBody_def)

text \<open>
  Claim C3 says that a converter registered for the exact pair of types takes precedence
  over structural mapping at every level, and in particular that a field with both a
  structural match and a global converter for its pair of types holds the converter's
  result. The code at a failing input: a converter from \<^verbatim>\<open>string\<close> to \<^verbatim>\<open>string\<close> is
  registered and the field \<open>Name\<close> matches by name. Under tier None the destination holds
  the converter's result; under tier Specialized the compiled closure copies the field
  and the converter is never consulted.
\<close>

theorem specialized_bypasses_converter:
  "destOf (Map 3 (ConvertUsing (mapperFor [] SrcName DstName) stringT stringT shout) DstName
            (VStruct SrcName [str ''alice'']))
     = Some (VStruct DstName [str ''CONVERTED''])
   \<and> destOf (Map 3 (ConvertUsing (mapperFor [WithSpecializedMappers] SrcName DstName) stringT stringT shout) DstName
            (VStruct SrcName [str ''alice'']))
     = Some (VStruct DstName [str ''alice''])"
  by code_simp

section \<open>Claims about hooks\<close>










section \<open>Claims about nil collections\<close>

text \<open>
  Where the policy for a nil source is applied: \<open>MapSlice\<close>, \<open>mapSlice\<close> and \<open>mapMap\<close>
  give the empty collection by default and the nil one under the option. \<open>assignValue\<close>
  reaches \<open>mapSlice\<close> only for slice types that differ; a nil slice of the destination's
  own type is assigned as it is (a panic of \<^verbatim>\<open>Set\<close> when it was read through an
  unexported field).
\<close>

lemma slice_not_convertible:
  "et \<noteq> dt \<Longrightarrow> \<not> ConvertibleTo (TSlice et) (TSlice dt) \<and> \<not> AssignableTo (TSlice et) (TSlice dt)"
  by (simp add: ConvertibleTo_def AssignableTo_def isIntKind_def isUintKind_def isFloatKind_def
      isByteOrRuneSlice_def)

lemma nil_collection_policy:
  "MapSlice n cfg t None = Ok cfg (VSlice t (if allowNilColl cfg then None else Some []))
   \<and> (typeOf dest = TSlice dt \<longrightarrow>
        mapSlice mv cfg (VSlice et None) sa dest (TSlice dt)
          = Ok cfg (VSlice dt (if allowNilColl cfg then None else Some [])))
   \<and> (typeOf dest = TMap dk dv \<longrightarrow>
        mapMap av cfg (VMap kt vt None) sa dest (TMap dk dv)
          = Ok cfg (VMap dk dv (if allowNilColl cfg then None else Some [])))
   \<and> (typeOf dest = TSlice dt \<and> converters cfg (TSlice et, TSlice dt) = None \<longrightarrow>
        assignValue (Suc n) cfg (VSlice et None) sa dest
          = (if et = dt \<and> readOnly sa then Panic
             else Ok cfg (VSlice dt (if et = dt \<or> allowNilColl cfg then None else Some []))))"
proof (intro conjI impI)
  show "MapSlice n cfg t None = Ok cfg (VSlice t (if allowNilColl cfg then None else Some []))"
    by (simp add: MapSlice_def)
next
  assume "typeOf dest = TSlice dt"
  then show "mapSlice mv cfg (VSlice et None) sa dest (TSlice dt)
          = Ok cfg (VSlice dt (if allowNilColl cfg then None else Some []))"
    by (simp add: mapSlice_def setOutcome_def setValue_def IsValid_def AssignableTo_def)
next
  assume "typeOf dest = TMap dk dv"
  then show "mapMap av cfg (VMap kt vt None) sa dest (TMap dk dv)
          = Ok cfg (VMap dk dv (if allowNilColl cfg then None else Some []))"
    by (simp add: mapMap_def setOutcome_def setValue_def IsValid_def AssignableTo_def)
next
  assume a: "typeOf dest = TSlice dt \<and> converters cfg (TSlice et, TSlice dt) = None"
  then have notptr: "\<not> (\<exists>t p. dest = VPtr t p)" by auto
  show "assignValue (Suc n) cfg (VSlice et None) sa dest
          = (if et = dt \<and> readOnly sa then Panic
             else Ok cfg (VSlice dt (if et = dt \<or> allowNilColl cfg then None else Some [])))"
  proof (cases "et = dt")
    case True
    with a show ?thesis
      by (simp add: assignValueBody_def IsValid_def Let_def AssignableTo_def
          setFrom_def setOutcome_def setValue_def)
  next
    case False
    from slice_not_convertible[OF False] a False show ?thesis
      by (simp add: assignValueBody_def IsValid_def Let_def
          mapSlice_def setOutcome_def setValue_def AssignableTo_def)
  qed
qed

text \<open>
  Claim C5 says that a nil source slice gives an empty, non-nil destination slice by
  default, at the top level and for a nil slice field met during struct mapping. The code
  at a failing input: the field \<open>Tags\<close> is a \<^verbatim>\<open>[]string\<close> on both sides and nil in the
  source; with the default configuration the destination field is nil. (For the field
  \<open>Items\<close>, whose element types differ, the destination is the empty slice.)
\<close>

theorem nil_slice_field_copied_as_nil:
  "allowNilColl (mapperFor [] Tagged TaggedDTO) = False
   \<and> destOf (Map 3 (mapperFor [] Tagged TaggedDTO) TaggedDTO (VStruct Tagged [VSlice stringT None]))
       = Some (VStruct TaggedDTO [VSlice stringT None])
   \<and> errOf (Map 3 (mapperFor [] Tagged TaggedDTO) TaggedDTO (VStruct Tagged [VSlice stringT None]))
       = None
   \<and> destOf (Map 3 (mapperFor [] Basket BasketDTO) BasketDTO (VStruct Basket [VSlice Item None]))
       = Some (VStruct BasketDTO [VSlice ItemDTO (Some [])])"
  by code_simp

section \<open>Claims about errors\<close>













lemma applyConverter_error:
  "\<not> readOnly sa \<Longrightarrow> conv s0 (typeOf d0) = Inl err0 \<Longrightarrow>
   applyConverter conv cfg s0 sa d0 = Fail cfg d0 err0"
  by (simp add: applyConverter_def)








section \<open>Claims about the registry\<close>

text \<open>
  Claim C7, as stated: \<open>CreateMap\<close> for a pair that is already registered returns the
  existing \<open>TypeMap\<close>, so that refinements made through an earlier builder survive. The
  pair is registered, \<open>Age\<close> is set to ignored through the builder, and \<open>CreateMap\<close> is
  called again: the second builder points to a new \<open>TypeMap\<close>, the registry maps the
  pair to it, and a mapping copies \<open>Age\<close> again.
\<close>

theorem CreateMap_replaces_existing_counterexample:
  "(case CreateMap New SourceBasic DestBasic of
      None \<Rightarrow> False
    | Some (c1, b1) \<Rightarrow>
        (case CreateMap (ForMemberByName c1 b1 ''Age'' [Ignore]) SourceBasic DestBasic of
           None \<Rightarrow> False
         | Some (c2, b2) \<Rightarrow>
             typeMapRef b1 = 0 \<and> typeMapRef b2 = 1
             \<and> typeMaps (ForMemberByName c1 b1 ''Age'' [Ignore]) (SourceBasic, DestBasic) = Some 0
             \<and> typeMaps c2 (SourceBasic, DestBasic) = Some 1
             \<and> destOf (Map 3 (ForMemberByName c1 b1 ''Age'' [Ignore]) DestBasic john)
                 = Some (VStruct DestBasic [str ''John'', num 0, str ''john@example.com''])
             \<and> destOf (Map 3 c2 DestBasic john)
                 = Some (VStruct DestBasic [str ''John'', num 30, str ''john@example.com''])))"
  by code_simp

lemma registerTypeMap_fresh:
  assumes "registerTypeMap cfg key tm = Some (cfg', r)"
  shows "r = length (store cfg) \<and> typeMaps cfg' key = Some r
         \<and> store cfg' = store cfg @ [tm]"
  using assms
  by (auto simp: registerTypeMap_def Let_def split: if_splits option.splits)

text \<open>
  Claim C7, amended: \<open>CreateMap\<close> always builds a new auto-configured \<open>TypeMap\<close>, at a
  new address, and enters it in the registry under the pair (with one pointer stripped),
  in place of an existing entry; the \<open>TypeMap\<close>s stored before are unchanged. It is the
  engine's \<open>autoCreateTypeMap\<close> that returns the \<open>TypeMap\<close> already registered for a pair.
\<close>

theorem CreateMap_always_registers_new:
  "(CreateMap cfg tsrc tdest = Some (cfg', b) \<longrightarrow>
      typeMapRef b = length (store cfg)
      \<and> typeMaps cfg' (stripPtr tsrc, stripPtr tdest) = Some (typeMapRef b)
      \<and> lookupRef (store cfg') (typeMapRef b)
          = Some (autoConfigureMembers (newTypeMap (stripPtr tsrc) (stripPtr tdest)))
      \<and> (\<forall>r < length (store cfg). lookupRef (store cfg') r = lookupRef (store cfg) r))
   \<and> (typeMaps cfg (st, dt) = Some r0 \<longrightarrow> autoCreateTypeMap cfg st dt = Some (cfg, r0))"
proof (intro conjI impI)
  assume c: "CreateMap cfg tsrc tdest = Some (cfg', b)"
  have s: "(if Kind t = KPtr then stripPtr t else t) = stripPtr t" for t
    by (cases t) auto
  from c obtain r where
    reg: "registerTypeMap cfg (stripPtr tsrc, stripPtr tdest)
            (autoConfigureMembers (newTypeMap (stripPtr tsrc) (stripPtr tdest))) = Some (cfg', r)"
    and b: "typeMapRef b = r"
    by (auto simp: CreateMap_def Let_def s split: if_splits option.splits)
  from registerTypeMap_fresh[OF reg] b
  have f: "typeMapRef b = length (store cfg)"
     "typeMaps cfg' (stripPtr tsrc, stripPtr tdest) = Some (typeMapRef b)"
     "store cfg' = store cfg @ [autoConfigureMembers (newTypeMap (stripPtr tsrc) (stripPtr tdest))]"
    by simp_all
  show "typeMapRef b = length (store cfg)" by (rule f(1))
  show "typeMaps cfg' (stripPtr tsrc, stripPtr tdest) = Some (typeMapRef b)" by (rule f(2))
  show "lookupRef (store cfg') (typeMapRef b)
          = Some (autoConfigureMembers (newTypeMap (stripPtr tsrc) (stripPtr tdest)))"
    using f(1) f(3) by (simp add: lookupRef_def)
  show "\<forall>r < length (store cfg). lookupRef (store cfg') r = lookupRef (store cfg) r"
    using f(3) by (simp add: lookupRef_def nth_append)
next
  assume "typeMaps cfg (st, dt) = Some r0"
  then show "autoCreateTypeMap cfg st dt = Some (cfg, r0)"
    by (simp add: autoCreateTypeMap_def)
qed

text \<open>The theorem at a mapper in which the pair is registered already.\<close>

theorem CreateMap_always_registers_new_witness:
  "(case CreateMap (mapperFor [] SourceBasic DestBasic) SourceBasic DestBasic of
      None \<Rightarrow> False
    | Some (c, b) \<Rightarrow> typeMapRef b = 1 \<and> typeMaps c (SourceBasic, DestBasic) = Some 1)
   \<and> typeMaps (mapperFor [] SourceBasic DestBasic) (SourceBasic, DestBasic) = Some 0
   \<and> map_option snd (autoCreateTypeMap (mapperFor [] SourceBasic DestBasic) SourceBasic DestBasic) = Some 0"
proof -
  have len: "length (store (mapperFor [] SourceBasic DestBasic)) = 1" by code_simp
  have reg: "typeMaps (mapperFor [] SourceBasic DestBasic) (SourceBasic, DestBasic) = Some 0" by code_simp
  have sp: "stripPtr SourceBasic = SourceBasic" "stripPtr DestBasic = DestBasic"
    by (simp_all add: SourceBasic_def DestBasic_def)
  have some: "\<not> Option.is_none (CreateMap (mapperFor [] SourceBasic DestBasic) SourceBasic DestBasic)"
    by code_simp
  then obtain c b where
    cm: "CreateMap (mapperFor [] SourceBasic DestBasic) SourceBasic DestBasic = Some (c, b)"
    by (auto simp: Option.is_none_def)
  from CreateMap_always_registers_new[of "mapperFor [] SourceBasic DestBasic" SourceBasic DestBasic c b
        SourceBasic DestBasic 0] cm len reg sp
  have "typeMapRef b = 1 \<and> typeMaps c (SourceBasic, DestBasic) = Some 1
        \<and> autoCreateTypeMap (mapperFor [] SourceBasic DestBasic) SourceBasic DestBasic
            = Some (mapperFor [] SourceBasic DestBasic, 0)"
    by simp
  with cm reg show ?thesis by simp
qed

section \<open>Claims about member rules\<close>

text \<open>
  Claim C8 says that a destination field bound with \<open>MapFrom\<close> takes its value from the
  named source field, also when the field had been matched automatically before. The code
  at a failing input: \<open>Name\<close> is matched by name, then bound to \<open>FullName\<close>. \<open>MapFrom\<close>
  stores the name and keeps the index path of the automatic match, and \<open>mapMember\<close> reads
  the index path first: the destination gets the source's \<open>Name\<close>. (For \<open>Label\<close>, which
  has no automatic match, the binding takes effect.)
\<close>

theorem mapFrom_ignored_on_matched_field:
  "map (\<lambda>mm. (destField mm, srcField mm, srcFieldIdx mm))
       (memberMaps (store (withMember SrcAlt DstAlt ''Name'' [MapFrom ''FullName'']) ! 0))
     = [(''Name'', ''FullName'', [0])]
   \<and> destOf (Map 3 (withMember SrcAlt DstAlt ''Name'' [MapFrom ''FullName'']) DstAlt
              (VStruct SrcAlt [str ''Al'', str ''Alice Liddell'']))
     = Some (VStruct DstAlt [str ''Al''])
   \<and> destOf (Map 3 (withMember SrcAlt DstOther ''Label'' [MapFrom ''FullName'']) DstOther
              (VStruct SrcAlt [str ''Al'', str ''Alice Liddell'']))
     = Some (VStruct DstOther [str ''Alice Liddell''])"
  by code_simp

text \<open>The member loop is the loop over a prefix followed by the loop over the rest.\<close>

lemma mapMembers_append:
  "mapMembers av cfg src sa dest (ms1 @ ms2)
     = andThen (mapMembers av cfg src sa dest ms1) (\<lambda>c d. mapMembers av c src sa d ms2)"
proof (induction ms1 arbitrary: cfg dest)
  case Nil
  show ?case by simp
next
  case (Cons m ms)
  show ?case
    by (cases "mapMember av cfg src sa dest m") (simp_all add: Cons.IH)
qed

text \<open>
  Claim C10: struct mapping is not atomic on failure. The rule for \<open>Email\<close>, the third
  of three, has a resolver that fails: \<open>MapTo\<close> returns the error and the destination
  keeps the \<open>Name\<close> and \<open>Age\<close> written by the first two rules (and its old \<open>Email\<close>);
  \<open>Map\<close> returns the error together with the partly filled destination.
\<close>

theorem struct_mapping_not_atomic:
  "errOf (MapTo 3 (withMember SourceBasic DestBasic ''Email'' [MapFromFunc failingResolver]) john
            (VStruct DestBasic [str ''old'', num 1, str ''old@example.com'']))
     = Some (MappingError ''resolver error'' None None ''Email'' (Some (UserError ''boom'')))
   \<and> destOf (MapTo 3 (withMember SourceBasic DestBasic ''Email'' [MapFromFunc failingResolver]) john
            (VStruct DestBasic [str ''old'', num 1, str ''old@example.com'']))
     = Some (VStruct DestBasic [str ''John'', num 30, str ''old@example.com''])
   \<and> errOf (Map 3 (withMember SourceBasic DestBasic ''Email'' [MapFromFunc failingResolver]) DestBasic john)
     = Some (MappingError ''resolver error'' None None ''Email'' (Some (UserError ''boom'')))
   \<and> destOf (Map 3 (withMember SourceBasic DestBasic ''Email'' [MapFromFunc failingResolver]) DestBasic john)
     = Some (VStruct DestBasic [str ''John'', num 30, str []])"
  by code_simp

end
